theory Spec2Isabelle
  imports Complex_Main "HOL-Library.Monad_Syntax"
begin

section \<open>JavaScript values and the runtime's built-ins\<close>

text \<open>
  The handlers receive URL query parameters. \<^verbatim>\<open>searchParams.get(name)\<close> yields a string,
  or \<^verbatim>\<open>null\<close> when the parameter is absent; it never yields \<^verbatim>\<open>undefined\<close>.
  The schema library distinguishes the two, so both are kept.
\<close>

datatype jsval = Undefined | Null | Str string

text \<open>
  A JavaScript number is NaN, an infinity, or a finite double; a finite double is given by
  the real number it denotes. Comparisons of finite doubles are comparisons of reals.
\<close>

datatype number = NaN | NegInfinity | PosInfinity | Finite real

text \<open>
  Built-ins of the runtime. They are not code of the repository and are taken as
  parameters: \<^verbatim>\<open>Number(s)\<close> on a string (used by the schema's coercion),
  \<^verbatim>\<open>parseFloat(s)\<close>, \<^verbatim>\<open>a.localeCompare(b)\<close>, and the double arithmetic:
  \<^item> \<open>roundPositive x\<close> is the double that \<^verbatim>\<open>+\<close>, \<^verbatim>\<open>-\<close>, \<^verbatim>\<open>*\<close>, \<^verbatim>\<open>/\<close> and \<^verbatim>\<open>Math.sqrt\<close>
    return when their exact result is the positive real \<open>x\<close>, or \<open>None\<close> when that is not
    a finite double (overflow);
  \<^item> \<open>sinOfPositive x\<close> is \<^verbatim>\<open>Math.sin(x)\<close> at a positive double, \<open>cosOf x\<close> is
    \<^verbatim>\<open>Math.cos(x)\<close> and \<open>atan2Of y x\<close> is \<^verbatim>\<open>Math.atan2(y, x)\<close>, at finite doubles.
    The language leaves their accuracy to the implementation; at a finite argument they
    return a finite double.
\<close>

record runtime =
  StringToNumber :: "string \<Rightarrow> number"
  parseFloat :: "string \<Rightarrow> number"
  localeCompare :: "string \<Rightarrow> string \<Rightarrow> int"
  roundPositive :: "real \<Rightarrow> real option"
  sinOfPositive :: "real \<Rightarrow> real"
  cosOf :: "real \<Rightarrow> real"
  atan2Of :: "real \<Rightarrow> real \<Rightarrow> real"

text \<open>
  Rounding is sign-symmetric and leaves 0 alone; nothing else is assumed of it. An
  operation on finite doubles returns the rounding of its exact result; \<open>None\<close> stands
  for a result that is not a finite double (an infinity or NaN).
\<close>

definition roundToDouble :: "runtime \<Rightarrow> real \<Rightarrow> real option" where
  "roundToDouble rt x =
     (if x = 0 then Some 0
      else if x < 0 then map_option uminus (roundPositive rt (- x))
      else roundPositive rt x)"

definition fadd :: "runtime \<Rightarrow> real \<Rightarrow> real \<Rightarrow> real option" where
  "fadd rt x y = roundToDouble rt (x + y)"

definition fsub :: "runtime \<Rightarrow> real \<Rightarrow> real \<Rightarrow> real option" where
  "fsub rt x y = roundToDouble rt (x - y)"

definition fmul :: "runtime \<Rightarrow> real \<Rightarrow> real \<Rightarrow> real option" where
  "fmul rt x y = roundToDouble rt (x * y)"

definition fdiv :: "runtime \<Rightarrow> real \<Rightarrow> real \<Rightarrow> real option" where
  "fdiv rt x y = (if y = 0 then None else roundToDouble rt (x / y))"

text \<open>\<^verbatim>\<open>Number(v)\<close>: \<^verbatim>\<open>Number(undefined)\<close> is NaN and \<^verbatim>\<open>Number(null)\<close> is 0.\<close>

fun Number :: "runtime \<Rightarrow> jsval \<Rightarrow> number" where
  "Number rt Undefined = NaN"
| "Number rt Null = Finite 0"
| "Number rt (Str s) = StringToNumber rt s"

text \<open>\<^verbatim>\<open>Boolean(v)\<close>: only the empty string, \<^verbatim>\<open>null\<close> and \<^verbatim>\<open>undefined\<close> are falsy here.\<close>

fun Boolean :: "jsval \<Rightarrow> bool" where
  "Boolean Undefined = False"
| "Boolean Null = False"
| "Boolean (Str s) = (s \<noteq> [])"

text \<open>\<^verbatim>\<open>Math.round\<close> rounds to the nearest integer, halves upwards.\<close>

definition Math_round :: "real \<Rightarrow> real" where
  "Math_round x = of_int \<lfloor>x + 1 / 2\<rfloor>"

text \<open>
  \<^verbatim>\<open>x > r\<close> for a number \<open>x\<close> and a finite \<open>r\<close>: false when \<open>x\<close> is NaN.
\<close>

fun number_greater :: "number \<Rightarrow> real \<Rightarrow> bool" where
  "number_greater (Finite x) r = (r < x)"
| "number_greater PosInfinity r = True"
| "number_greater NegInfinity r = False"
| "number_greater NaN r = False"

text \<open>\<^verbatim>\<open>x !== y\<close> on numbers: NaN differs from every number, itself included.\<close>

fun number_differs :: "number \<Rightarrow> number \<Rightarrow> bool" where
  "number_differs NaN y = True"
| "number_differs x NaN = True"
| "number_differs x y = (x \<noteq> y)"

text \<open>
  \<^verbatim>\<open>x - y\<close> on numbers. On finite doubles the exact difference is taken: its sign,
  which is all that sorting reads, is that of the double difference.
\<close>

fun number_minus :: "number \<Rightarrow> number \<Rightarrow> number" where
  "number_minus (Finite x) (Finite y) = Finite (x - y)"
| "number_minus NaN y = NaN"
| "number_minus x NaN = NaN"
| "number_minus PosInfinity PosInfinity = NaN"
| "number_minus NegInfinity NegInfinity = NaN"
| "number_minus PosInfinity y = PosInfinity"
| "number_minus NegInfinity y = NegInfinity"
| "number_minus x PosInfinity = NegInfinity"
| "number_minus x NegInfinity = PosInfinity"

text \<open>
  \<^verbatim>\<open>Math.round(x * 10) / 10\<close> on a finite double: the product is rounded, \<^verbatim>\<open>Math.round\<close>
  of a double is exact, and the quotient is rounded. \<open>None\<close> stands for a result that is
  not a finite double.
\<close>

definition roundToOneDecimal :: "runtime \<Rightarrow> real \<Rightarrow> real option" where
  "roundToOneDecimal rt x = do { m \<leftarrow> fmul rt x 10; fdiv rt (Math_round m) 10 }"

text \<open>
  The same on any number, as the JSON response carries it: \<^verbatim>\<open>Math.round(NaN) / 10\<close> is
  NaN, and a number that is not finite is serialised as \<^verbatim>\<open>null\<close>, so that the response
  holds no number (\<open>None\<close>).
\<close>

fun oneDecimal :: "runtime \<Rightarrow> number \<Rightarrow> real option" where
  "oneDecimal rt (Finite x) = roundToOneDecimal rt x"
| "oneDecimal rt _ = None"

text \<open>
  \<^verbatim>\<open>Math.sin\<close>, \<^verbatim>\<open>Math.cos\<close> and \<^verbatim>\<open>Math.atan2\<close> on finite doubles are the runtime's;
  \<^verbatim>\<open>Math.sin\<close> is odd and maps 0 to 0. \<^verbatim>\<open>Math.sqrt\<close> is correctly rounded, and NaN
  (\<open>None\<close>) on a negative number. \<^verbatim>\<open>Math.PI\<close> is the double nearest to \<open>\<pi>\<close>.
\<close>

definition Math_sin :: "runtime \<Rightarrow> real \<Rightarrow> real" where
  "Math_sin rt x =
     (if x = 0 then 0
      else if x < 0 then - sinOfPositive rt (- x)
      else sinOfPositive rt x)"

definition Math_cos :: "runtime \<Rightarrow> real \<Rightarrow> real" where
  "Math_cos rt x = cosOf rt x"

definition Math_atan2 :: "runtime \<Rightarrow> real \<Rightarrow> real \<Rightarrow> real" where
  "Math_atan2 rt y x = atan2Of rt y x"

definition Math_sqrt :: "runtime \<Rightarrow> real \<Rightarrow> real option" where
  "Math_sqrt rt x = (if x < 0 then None else roundToDouble rt (sqrt x))"

definition Math_PI :: real where
  "Math_PI = 884279719003555 / 281474976710656"

text \<open>
  Strings are lists of characters; \<^verbatim>\<open>toLowerCase\<close> is modelled on the ASCII letters and
  \<^verbatim>\<open>s.includes(q)\<close> is the substring test.
\<close>

definition toLowerChar :: "char \<Rightarrow> char" where
  "toLowerChar c =
     (case map_of (zip ''ABCDEFGHIJKLMNOPQRSTUVWXYZ'' ''abcdefghijklmnopqrstuvwxyz'') c of
        Some l \<Rightarrow> l
      | None \<Rightarrow> c)"

definition toLowerCase :: "string \<Rightarrow> string" where
  "toLowerCase s = map toLowerChar s"

fun String_includes :: "string \<Rightarrow> string \<Rightarrow> bool" where
  "String_includes [] q = (q = [])"
| "String_includes (c # cs) q = (take (length q) (c # cs) = q \<or> String_includes cs q)"


section \<open>src/lib/utils.ts\<close>

text \<open>
  The haversine formula, operation by operation in double arithmetic. In exact
  arithmetic \<open>a\<close> lies in [0, 1]; rounded, it can exceed 1 (for antipodal points) and then
  \<^verbatim>\<open>Math.sqrt(1 - a)\<close>, and with it the distance, is NaN. An intermediate value that is
  not a finite double (\<open>None\<close>) ends in NaN as well: only the differences and their
  conversion to radians can overflow, and \<^verbatim>\<open>Math.sin\<close> of an infinity is NaN.
\<close>

definition toRadians :: "runtime \<Rightarrow> real \<Rightarrow> real option" where
  "toRadians rt degrees = do { k \<leftarrow> fdiv rt Math_PI 180; fmul rt degrees k }"

text \<open>\<^verbatim>\<open>Math.sin(dLat / 2)\<close> with \<^verbatim>\<open>dLat = toRadians(lat2 - lat1)\<close>, and the same for \<^verbatim>\<open>dLng\<close>.\<close>

definition halfAngleSine :: "runtime \<Rightarrow> real \<Rightarrow> real \<Rightarrow> real option" where
  "halfAngleSine rt x1 x2 =
     do { d \<leftarrow> fsub rt x2 x1; r \<leftarrow> toRadians rt d; h \<leftarrow> fdiv rt r 2; Some (Math_sin rt h) }"

text \<open>\<^verbatim>\<open>Math.cos(toRadians(lat))\<close>.\<close>

definition cosOfDegrees :: "runtime \<Rightarrow> real \<Rightarrow> real option" where
  "cosOfDegrees rt lat = do { r \<leftarrow> toRadians rt lat; Some (Math_cos rt r) }"

text \<open>The value of \<^verbatim>\<open>a\<close>.\<close>

definition haversineTerm :: "runtime \<Rightarrow> real \<Rightarrow> real \<Rightarrow> real \<Rightarrow> real \<Rightarrow> real option" where
  "haversineTerm rt lat1 lng1 lat2 lng2 =
     do { sLat \<leftarrow> halfAngleSine rt lat1 lat2;
          sLng \<leftarrow> halfAngleSine rt lng1 lng2;
          sLat2 \<leftarrow> fmul rt sLat sLat;
          c1 \<leftarrow> cosOfDegrees rt lat1;
          c2 \<leftarrow> cosOfDegrees rt lat2;
          cc \<leftarrow> fmul rt c1 c2;
          ccs \<leftarrow> fmul rt cc sLng;
          ccss \<leftarrow> fmul rt ccs sLng;
          fadd rt sLat2 ccss }"

definition calculateDistance :: "runtime \<Rightarrow> real \<Rightarrow> real \<Rightarrow> real \<Rightarrow> real \<Rightarrow> number" where
  "calculateDistance rt lat1 lng1 lat2 lng2 =
     (case do { a \<leftarrow> haversineTerm rt lat1 lng1 lat2 lng2;
                sqrtA \<leftarrow> Math_sqrt rt a;
                oneMinusA \<leftarrow> fsub rt 1 a;
                sqrtOneMinusA \<leftarrow> Math_sqrt rt oneMinusA;
                c \<leftarrow> fmul rt 2 (Math_atan2 rt sqrtA sqrtOneMinusA);
                fmul rt 6371 c } of
        None \<Rightarrow> NaN
      | Some d \<Rightarrow> Finite d)"

definition suggestions :: "string list" where
  "suggestions =
     [''hoodie'', ''t-shirt'', ''jacket'', ''jeans'', ''sneakers'',
      ''dress'', ''shirt'', ''sweater'', ''pants'', ''shoes'']"

definition generateSearchSuggestions :: "string \<Rightarrow> string list" where
  "generateSearchSuggestions query =
     (if query = [] then take 5 suggestions
      else let filtered = filter (\<lambda>suggestion.
                 String_includes (toLowerCase suggestion) (toLowerCase query)) suggestions
           in take 5 filtered)"

text \<open>\<^verbatim>\<open>BYRON_BAY_COORDS\<close>, as (latitude, longitude).\<close>

definition BYRON_BAY_COORDS :: "real \<times> real" where
  "BYRON_BAY_COORDS = (- 28.6434, 153.6148)"


section \<open>Schema validation (zod)\<close>

text \<open>
  A schema maps an input value to its parsed output, or to \<open>None\<close> when it raises an
  issue. The library (zod 3) is not code of the repository; its combinators are modelled
  as it implements them: \<^verbatim>\<open>.optional()\<close> and \<^verbatim>\<open>.default(d)\<close> test the input for
  \<^verbatim>\<open>undefined\<close> only, and every other input, \<^verbatim>\<open>null\<close> included, is handed to the inner
  schema; \<^verbatim>\<open>z.coerce\<close> applies the built-in conversion to whatever it is handed.
\<close>

type_synonym 'a schema = "jsval \<Rightarrow> 'a option"

text \<open>\<^verbatim>\<open>z.string()\<close>, \<^verbatim>\<open>z.string().min(lo).max(hi)\<close> and \<^verbatim>\<open>z.string().max(hi)\<close>.\<close>

fun zString :: "string schema" where
  "zString (Str s) = Some s"
| "zString _ = None"

definition zString_min_max :: "nat \<Rightarrow> nat \<Rightarrow> string schema" where
  "zString_min_max lo hi v =
     (case zString v of None \<Rightarrow> None
      | Some s \<Rightarrow> if length s < lo \<or> hi < length s then None else Some s)"

text \<open>
  \<^verbatim>\<open>z.coerce.number().min(lo).max(hi)\<close>: the input is replaced by \<^verbatim>\<open>Number(input)\<close>, NaN is
  a type issue, and a value below \<open>lo\<close> or above \<open>hi\<close> is a range issue.
\<close>

fun zNumber_min_max :: "real \<Rightarrow> real \<Rightarrow> number \<Rightarrow> real option" where
  "zNumber_min_max lo hi NaN = None"
| "zNumber_min_max lo hi NegInfinity = None"
| "zNumber_min_max lo hi PosInfinity = None"
| "zNumber_min_max lo hi (Finite x) = (if x < lo \<or> hi < x then None else Some x)"

definition zCoerceNumber :: "runtime \<Rightarrow> real \<Rightarrow> real \<Rightarrow> real schema" where
  "zCoerceNumber rt lo hi v = zNumber_min_max lo hi (Number rt v)"

text \<open>\<^verbatim>\<open>z.coerce.boolean()\<close>: the input is replaced by \<^verbatim>\<open>Boolean(input)\<close>; no issue arises.\<close>

definition zCoerceBoolean :: "bool schema" where
  "zCoerceBoolean v = Some (Boolean v)"

definition zOptional :: "'a schema \<Rightarrow> 'a option schema" where
  "zOptional inner v = (if v = Undefined then Some None else map_option Some (inner v))"

definition zDefault :: "'a schema \<Rightarrow> 'a \<Rightarrow> 'a schema" where
  "zDefault inner d v = (if v = Undefined then Some d else inner v)"

definition fieldError :: "string \<Rightarrow> 'a option \<Rightarrow> string list" where
  "fieldError name r = (case r of None \<Rightarrow> [name] | Some _ \<Rightarrow> [])"

text \<open>The URL's query parameters, and \<^verbatim>\<open>searchParams.get\<close>.\<close>

type_synonym searchParams = "string \<Rightarrow> string option"

definition searchParams_get :: "searchParams \<Rightarrow> string \<Rightarrow> jsval" where
  "searchParams_get sp name = (case sp name of None \<Rightarrow> Null | Some s \<Rightarrow> Str s)"

text \<open>\<^verbatim>\<open>searchSchema\<close> of the search route and its \<^verbatim>\<open>parse\<close>; \<open>Inl\<close> is the ZodError, with
  the names of the fields that raised an issue.\<close>

record validatedParams =
  vp_query :: string
  vp_lat :: "real option"
  vp_lng :: "real option"
  vp_radius :: real
  vp_limit :: real
  vp_category :: "string option"
  vp_inStock :: bool

definition searchSchema_parse :: "runtime \<Rightarrow> (string \<Rightarrow> jsval) \<Rightarrow> string list + validatedParams" where
  "searchSchema_parse rt params =
     (let query = zString_min_max 1 100 (params ''query'');
          lat = zOptional (zCoerceNumber rt (- 90) 90) (params ''lat'');
          lng = zOptional (zCoerceNumber rt (- 180) 180) (params ''lng'');
          radius = zDefault (zCoerceNumber rt 1 50) 10 (params ''radius'');
          limit = zDefault (zCoerceNumber rt 1 100) 20 (params ''limit'');
          category = zOptional zString (params ''category'');
          inStock = zDefault zCoerceBoolean True (params ''inStock'');
          parsed = do {
            q \<leftarrow> query; la \<leftarrow> lat; lo \<leftarrow> lng; r \<leftarrow> radius; l \<leftarrow> limit;
            c \<leftarrow> category; i \<leftarrow> inStock;
            Some \<lparr>vp_query = q, vp_lat = la, vp_lng = lo, vp_radius = r, vp_limit = l,
                  vp_category = c, vp_inStock = i\<rparr> }
      in case parsed of
           Some validated \<Rightarrow> Inr validated
         | None \<Rightarrow> Inl (fieldError ''query'' query @ fieldError ''lat'' lat @
                        fieldError ''lng'' lng @ fieldError ''radius'' radius @
                        fieldError ''limit'' limit @ fieldError ''category'' category @
                        fieldError ''inStock'' inStock))"

text \<open>\<^verbatim>\<open>suggestionsSchema\<close> of the suggestions route.\<close>

record validatedSuggestionParams =
  sg_query :: string
  sg_limit :: real

definition suggestionsSchema_parse ::
    "runtime \<Rightarrow> (string \<Rightarrow> jsval) \<Rightarrow> string list + validatedSuggestionParams" where
  "suggestionsSchema_parse rt params =
     (let query = zString_min_max 0 50 (params ''query'');
          limit = zDefault (zCoerceNumber rt 1 10) 5 (params ''limit'');
          parsed = do {
            q \<leftarrow> query; l \<leftarrow> limit;
            Some \<lparr>sg_query = q, sg_limit = l\<rparr> }
      in case parsed of
           Some validated \<Rightarrow> Inr validated
         | None \<Rightarrow> Inl (fieldError ''query'' query @ fieldError ''limit'' limit))"


section \<open>The catalog store (Prisma)\<close>

text \<open>
  Rows as the handlers read them, with the relations they include: a product with its
  merchant and its variations, a variation with its inventory rows. Addresses and
  attribute sets are opaque to the handlers; timestamps are milliseconds.
\<close>

record dbInventory =
  quantity :: int
  lastSyncAt :: int

record dbVariation =
  v_id :: string
  v_name :: string
  v_price :: real
  v_attributes :: string
  v_inventory :: "dbInventory list"

record dbMerchant =
  m_id :: string
  m_name :: string
  m_address :: string
  m_latitude :: real
  m_longitude :: real
  m_isActive :: bool

record dbProduct =
  p_id :: string
  p_name :: string
  p_description :: "string option"
  p_category :: "string option"
  p_imageUrl :: "string option"
  p_basePrice :: "real option"
  p_isActive :: bool
  p_merchant :: dbMerchant
  p_variations :: "dbVariation list"

record searchLogEntry =
  log_query :: string
  log_latitude :: real
  log_longitude :: real
  log_radius :: real
  log_results :: nat

text \<open>
  The store: the product table in the order the store scans it, the analytics log, and
  whether a read, respectively a write to the log, goes through (a store call that does
  not go through throws).
\<close>

record store =
  productTable :: "dbProduct list"
  searchTable :: "searchLogEntry list"
  readable :: bool
  writable :: bool

text \<open>The \<^verbatim>\<open>where\<close> clause the search route builds.\<close>

record whereClause =
  w_isActive :: bool
  w_merchant_isActive :: bool
  w_OR :: "string option"
  w_category :: "string option"

text \<open>\<^verbatim>\<open>{ contains: q, mode: 'insensitive' }\<close> on a nullable text column.\<close>

definition containsInsensitive :: "string option \<Rightarrow> string \<Rightarrow> bool" where
  "containsInsensitive field q =
     (case field of None \<Rightarrow> False
      | Some s \<Rightarrow> String_includes (toLowerCase s) (toLowerCase q))"

definition matchesWhere :: "whereClause \<Rightarrow> dbProduct \<Rightarrow> bool" where
  "matchesWhere w p =
     (p_isActive p = w_isActive w \<and>
      m_isActive (p_merchant p) = w_merchant_isActive w \<and>
      (case w_OR w of None \<Rightarrow> True
       | Some q \<Rightarrow> containsInsensitive (Some (p_name p)) q \<or>
                   containsInsensitive (p_description p) q \<or>
                   containsInsensitive (p_category p) q) \<and>
      (case w_category w of None \<Rightarrow> True
       | Some c \<Rightarrow> containsInsensitive (p_category p) c))"

text \<open>
  \<^verbatim>\<open>prisma.product.findMany({ where, include, take })\<close>: the first \<open>take\<close> matching rows.
  \<open>None\<close> is a thrown error: the store is unreachable, or \<open>take\<close> is not an integer
  (the client rejects the query).
\<close>

definition product_findMany :: "store \<Rightarrow> whereClause \<Rightarrow> real \<Rightarrow> dbProduct list option" where
  "product_findMany st w n =
     (if readable st \<and> of_int \<lfloor>n\<rfloor> = n
      then Some (take (nat \<lfloor>n\<rfloor>) (filter (matchesWhere w) (productTable st)))
      else None)"

text \<open>\<^verbatim>\<open>prisma.product.findUnique({ where: { id }, include })\<close>: the row or \<^verbatim>\<open>null\<close>.\<close>

definition product_findUnique :: "store \<Rightarrow> string \<Rightarrow> dbProduct option option" where
  "product_findUnique st productId =
     (if readable st then Some (find (\<lambda>p. p_id p = productId) (productTable st)) else None)"

text \<open>\<^verbatim>\<open>prisma.search.create({ data })\<close>: appends the entry; \<open>None\<close> is a thrown error.\<close>

definition search_create :: "store \<Rightarrow> searchLogEntry \<Rightarrow> store option" where
  "search_create st entry =
     (if writable st then Some (st\<lparr>searchTable := searchTable st @ [entry]\<rparr>) else None)"


section \<open>API types (src/lib/types.ts) and responses\<close>

text \<open>
  The types as the JSON response carries them. An optional field is \<open>None\<close> when the
  response holds no value there: the field is \<^verbatim>\<open>undefined\<close> and left out, or, for the
  merchant's \<^verbatim>\<open>distance\<close>, the number is NaN and serialised as \<^verbatim>\<open>null\<close>.
\<close>

record apiInventory =
  inv_quantity :: int
  inv_lastUpdated :: int

record apiVariation =
  av_id :: string
  av_name :: string
  av_price :: real
  av_attributes :: string
  av_inventory :: apiInventory

record apiMerchant =
  am_id :: string
  am_name :: string
  am_address :: string
  am_latitude :: real
  am_longitude :: real
  am_distance :: "real option"

record productWithMerchant =
  pw_id :: string
  pw_name :: string
  pw_description :: "string option"
  pw_category :: "string option"
  pw_imageUrl :: "string option"
  pw_basePrice :: "real option"
  pw_merchant :: apiMerchant
  pw_variations :: "apiVariation list"
  pw_totalStock :: int

record pagination =
  pg_total :: nat
  pg_page :: nat
  pg_limit :: real
  pg_hasMore :: bool

record searchMeta =
  sm_query :: string
  sm_location :: "real \<times> real"
  sm_radius :: real
  sm_executionTime :: int

record searchData =
  sd_products :: "productWithMerchant list"
  sd_pagination :: pagination
  sd_searchMeta :: searchMeta

datatype errorCode =
  BUILD_TIME | INVALID_PARAMS | SEARCH_ERROR | SUGGESTIONS_ERROR | PRODUCT_NOT_FOUND | PRODUCT_ERROR

text \<open>A JSON response: the success payload, or the HTTP status, the error code and the
  names of the fields in \<^verbatim>\<open>details\<close>.\<close>

datatype 'a response = Success 'a | Failure nat errorCode "string list"

text \<open>\<^verbatim>\<open>x || undefined\<close> on a nullable string and on a nullable number.\<close>

definition orUndefined_string :: "string option \<Rightarrow> string option" where
  "orUndefined_string x = (case x of None \<Rightarrow> None | Some s \<Rightarrow> if s = [] then None else Some s)"

definition orUndefined_number :: "real option \<Rightarrow> real option" where
  "orUndefined_number x = (case x of None \<Rightarrow> None | Some r \<Rightarrow> if r = 0 then None else Some r)"

text \<open>\<^verbatim>\<open>variation.inventory[0]?.quantity || 0\<close>.\<close>

definition variationQuantity :: "dbVariation \<Rightarrow> int" where
  "variationQuantity variation =
     (case v_inventory variation of [] \<Rightarrow> 0 | row # _ \<Rightarrow> quantity row)"

text \<open>\<^verbatim>\<open>product.variations.reduce((sum, variation) => sum + (...), 0)\<close>.\<close>

definition totalStockOf :: "dbProduct \<Rightarrow> int" where
  "totalStockOf product = foldl (\<lambda>sum variation. sum + variationQuantity variation) 0 (p_variations product)"

text \<open>
  The object both routes build from a row (\<^verbatim>\<open>transformedProduct\<close>); \<open>now\<close> is the clock
  read by \<^verbatim>\<open>new Date()\<close> for a variation without inventory, \<open>distanceField\<close> the value
  of \<^verbatim>\<open>merchant.distance\<close>.
\<close>

definition transformVariation :: "int \<Rightarrow> dbVariation \<Rightarrow> apiVariation" where
  "transformVariation now variation =
     \<lparr>av_id = v_id variation, av_name = v_name variation, av_price = v_price variation,
      av_attributes = v_attributes variation,
      av_inventory = \<lparr>inv_quantity = variationQuantity variation,
                      inv_lastUpdated = (case v_inventory variation of [] \<Rightarrow> now
                                         | row # _ \<Rightarrow> lastSyncAt row)\<rparr>\<rparr>"

definition transformProduct :: "int \<Rightarrow> dbProduct \<Rightarrow> real option \<Rightarrow> int \<Rightarrow> productWithMerchant" where
  "transformProduct now product distanceField totalStock =
     \<lparr>pw_id = p_id product, pw_name = p_name product,
      pw_description = orUndefined_string (p_description product),
      pw_category = orUndefined_string (p_category product),
      pw_imageUrl = orUndefined_string (p_imageUrl product),
      pw_basePrice = orUndefined_number (p_basePrice product),
      pw_merchant = \<lparr>am_id = m_id (p_merchant product), am_name = m_name (p_merchant product),
                     am_address = m_address (p_merchant product),
                     am_latitude = m_latitude (p_merchant product),
                     am_longitude = m_longitude (p_merchant product),
                     am_distance = distanceField\<rparr>,
      pw_variations = map (transformVariation now) (p_variations product),
      pw_totalStock = totalStock\<rparr>"


section \<open>src/app/api/search/route.ts\<close>

text \<open>The process environment and the clock reads of one request.\<close>

record env =
  DATABASE_URL :: "string option"
  startTime :: int
  mapTime :: int
  endTime :: int

text \<open>\<^verbatim>\<open>{ product: transformedProduct, distance }\<close>, the value the \<^verbatim>\<open>map\<close> callback returns
  for a candidate it keeps.\<close>

record rankedItem =
  it_product :: productWithMerchant
  it_distance :: number

text \<open>The callback of \<^verbatim>\<open>products.map\<close>; \<open>None\<close> is its \<^verbatim>\<open>null\<close>.\<close>

definition searchCandidate ::
    "runtime \<Rightarrow> validatedParams \<Rightarrow> real \<Rightarrow> real \<Rightarrow> int \<Rightarrow> dbProduct \<Rightarrow> rankedItem option" where
  "searchCandidate rt validatedParams userLat userLng now product =
     (let distance = calculateDistance rt userLat userLng
                       (m_latitude (p_merchant product)) (m_longitude (p_merchant product))
      in if number_greater distance (vp_radius validatedParams) then None
         else let totalStock = totalStockOf product
              in if vp_inStock validatedParams \<and> totalStock = 0 then None
                 else Some \<lparr>it_product = transformProduct now product
                                             (oneDecimal rt distance) totalStock,
                            it_distance = distance\<rparr>)"

text \<open>The comparator passed to \<^verbatim>\<open>sort\<close>.\<close>

definition compareItems :: "runtime \<Rightarrow> rankedItem \<Rightarrow> rankedItem \<Rightarrow> number" where
  "compareItems rt a b =
     (if number_differs (it_distance a) (it_distance b)
      then number_minus (it_distance a) (it_distance b)
      else if pw_totalStock (it_product a) \<noteq> pw_totalStock (it_product b)
           then Finite (of_int (pw_totalStock (it_product b) - pw_totalStock (it_product a)))
      else Finite (of_int (localeCompare rt (pw_name (it_product a)) (pw_name (it_product b)))))"

text \<open>
  \<^verbatim>\<open>Array.prototype.sort(cmp)\<close> reads the sign of the comparator's result and takes a
  NaN result as 0. It is a stable sort, modelled as the stable insertion sort, which
  every stable sort agrees with when the comparator is consistent; with an inconsistent
  comparator (as NaN distances make it) the order is the implementation's choice.
\<close>

fun comparatorValue :: "number \<Rightarrow> real" where
  "comparatorValue (Finite v) = v"
| "comparatorValue PosInfinity = 1"
| "comparatorValue NegInfinity = - 1"
| "comparatorValue NaN = 0"

fun insertSorted :: "('a \<Rightarrow> 'a \<Rightarrow> number) \<Rightarrow> 'a \<Rightarrow> 'a list \<Rightarrow> 'a list" where
  "insertSorted cmp x [] = [x]"
| "insertSorted cmp x (y # ys) =
     (if comparatorValue (cmp x y) \<le> 0 then x # y # ys else y # insertSorted cmp x ys)"

fun Array_sort :: "('a \<Rightarrow> 'a \<Rightarrow> number) \<Rightarrow> 'a list \<Rightarrow> 'a list" where
  "Array_sort cmp [] = []"
| "Array_sort cmp (x # xs) = insertSorted cmp x (Array_sort cmp xs)"

text \<open>\<^verbatim>\<open>products.map(...).filter(Boolean).sort(...).slice(0, limit)\<close>.\<close>

definition rankedItems ::
    "runtime \<Rightarrow> validatedParams \<Rightarrow> real \<Rightarrow> real \<Rightarrow> int \<Rightarrow> dbProduct list \<Rightarrow> rankedItem list" where
  "rankedItems rt validatedParams userLat userLng now products =
     take (nat \<lfloor>vp_limit validatedParams\<rfloor>)
       (Array_sort (compareItems rt)
         (List.map_filter (searchCandidate rt validatedParams userLat userLng now) products))"

text \<open>
  The \<^verbatim>\<open>where\<close> clause: active products of active merchants, the text match when the
  query is truthy, the category filter when the category is truthy.
\<close>

definition buildWhereClause :: "validatedParams \<Rightarrow> whereClause" where
  "buildWhereClause validatedParams =
     \<lparr>w_isActive = True, w_merchant_isActive = True,
      w_OR = (if vp_query validatedParams = [] then None
              else Some (vp_query validatedParams)),
      w_category = orUndefined_string (vp_category validatedParams)\<rparr>"

text \<open>The handler. It returns the response and the store after the request.\<close>

definition search_GET ::
    "runtime \<Rightarrow> env \<Rightarrow> store \<Rightarrow> searchParams \<Rightarrow> searchData response \<times> store" where
  "search_GET rt env st searchParams =
     (if (case DATABASE_URL env of None \<Rightarrow> True | Some url \<Rightarrow> url = [])
      then (Failure 503 BUILD_TIME [], st)
      else case searchSchema_parse rt (searchParams_get searchParams) of
        Inl fieldErrors \<Rightarrow> (Failure 400 INVALID_PARAMS fieldErrors, st)
      | Inr validatedParams \<Rightarrow>
         (let userLat = (case vp_lat validatedParams of Some x \<Rightarrow> x
                         | None \<Rightarrow> fst BYRON_BAY_COORDS);
              userLng = (case vp_lng validatedParams of Some x \<Rightarrow> x
                         | None \<Rightarrow> snd BYRON_BAY_COORDS);
              whereClause = buildWhereClause validatedParams
          in (case product_findMany st whereClause (vp_limit validatedParams * 2) of
               None \<Rightarrow> (Failure 500 SEARCH_ERROR [], st)
             | Some products \<Rightarrow>
                (let productsWithDistance =
                       map it_product
                         (rankedItems rt validatedParams userLat userLng (mapTime env) products)
                 in (case search_create st
                           \<lparr>log_query = vp_query validatedParams, log_latitude = userLat,
                            log_longitude = userLng, log_radius = vp_radius validatedParams,
                            log_results = length productsWithDistance\<rparr> of
                      None \<Rightarrow> (Failure 500 SEARCH_ERROR [], st)
                    | Some st' \<Rightarrow>
                        (Success
                           \<lparr>sd_products = productsWithDistance,
                            sd_pagination =
                              \<lparr>pg_total = length productsWithDistance, pg_page = 1,
                               pg_limit = vp_limit validatedParams, pg_hasMore = False\<rparr>,
                            sd_searchMeta =
                              \<lparr>sm_query = vp_query validatedParams,
                               sm_location = (userLat, userLng),
                               sm_radius = vp_radius validatedParams,
                               sm_executionTime = endTime env - startTime env\<rparr>\<rparr>,
                         st'))))))"


section \<open>src/app/api/search/suggestions/route.ts\<close>

text \<open>\<^verbatim>\<open>searchParams.get('query') || ''\<close>.\<close>

fun orEmptyString :: "jsval \<Rightarrow> jsval" where
  "orEmptyString (Str s) = Str s"
| "orEmptyString _ = Str []"

definition suggestions_GET :: "runtime \<Rightarrow> searchParams \<Rightarrow> string list response" where
  "suggestions_GET rt searchParams =
     (let params = (\<lambda>name. if name = ''query''
                            then orEmptyString (searchParams_get searchParams ''query'')
                            else searchParams_get searchParams name)
      in case suggestionsSchema_parse rt params of
           Inl fieldErrors \<Rightarrow> Failure 400 INVALID_PARAMS fieldErrors
         | Inr validatedParams \<Rightarrow>
             Success (take (nat \<lfloor>sg_limit validatedParams\<rfloor>)
                        (generateSearchSuggestions (sg_query validatedParams))))"


section \<open>src/app/api/products/[id]/route.ts\<close>

text \<open>
  \<^verbatim>\<open>calculateDistance(parseFloat(lat), parseFloat(lng), ...)\<close>: the query coordinate is
  not validated here; with a NaN or infinite argument the computation yields NaN.
\<close>

fun calculateDistance_number ::
    "runtime \<Rightarrow> number \<Rightarrow> number \<Rightarrow> real \<Rightarrow> real \<Rightarrow> number" where
  "calculateDistance_number rt (Finite lat1) (Finite lng1) lat2 lng2 =
     calculateDistance rt lat1 lng1 lat2 lng2"
| "calculateDistance_number rt _ _ lat2 lng2 = NaN"

text \<open>
  \<^verbatim>\<open>distance ? Math.round(distance * 10) / 10 : undefined\<close>: \<^verbatim>\<open>undefined\<close>, NaN and 0
  are falsy. (An infinite distance does not arise; it would not survive JSON either.)
\<close>

fun roundedIfTruthy :: "runtime \<Rightarrow> number option \<Rightarrow> real option" where
  "roundedIfTruthy rt None = None"
| "roundedIfTruthy rt (Some NaN) = None"
| "roundedIfTruthy rt (Some (Finite d)) = (if d = 0 then None else roundToOneDecimal rt d)"
| "roundedIfTruthy rt (Some _) = None"

text \<open>
  The \<^verbatim>\<open>distance\<close> variable: assigned only when both \<^verbatim>\<open>lat\<close> and \<^verbatim>\<open>lng\<close> are truthy
  (present and non-empty); \<open>None\<close> is \<^verbatim>\<open>undefined\<close>.
\<close>

fun queryDistance :: "runtime \<Rightarrow> jsval \<Rightarrow> jsval \<Rightarrow> dbProduct \<Rightarrow> number option" where
  "queryDistance rt (Str latText) (Str lngText) product =
     (if latText = [] then None else if lngText = [] then None
      else Some (calculateDistance_number rt (parseFloat rt latText) (parseFloat rt lngText)
                   (m_latitude (p_merchant product)) (m_longitude (p_merchant product))))"
| "queryDistance rt _ _ product = None"

text \<open>The handler; \<open>now\<close> is the clock read by \<^verbatim>\<open>new Date()\<close>.\<close>

definition product_GET ::
    "runtime \<Rightarrow> int \<Rightarrow> store \<Rightarrow> string \<Rightarrow> searchParams \<Rightarrow> productWithMerchant response" where
  "product_GET rt now st productId searchParams =
     (let lat = searchParams_get searchParams ''lat'';
          lng = searchParams_get searchParams ''lng''
      in case product_findUnique st productId of
           None \<Rightarrow> Failure 500 PRODUCT_ERROR []
         | Some None \<Rightarrow> Failure 404 PRODUCT_NOT_FOUND []
         | Some (Some product) \<Rightarrow>
             let distance = queryDistance rt lat lng product;
                 totalStock = totalStockOf product
             in Success (transformProduct now product (roundedIfTruthy rt distance) totalStock))"


section \<open>Notions used in the statements\<close>

text \<open>The distance from the resolved coordinate of a response to a returned product's
  merchant, as \<^verbatim>\<open>calculateDistance\<close> gives it.\<close>

definition computedDistance :: "runtime \<Rightarrow> searchData \<Rightarrow> productWithMerchant \<Rightarrow> number" where
  "computedDistance rt d p =
     calculateDistance rt (fst (sm_location (sd_searchMeta d))) (snd (sm_location (sd_searchMeta d)))
       (am_latitude (pw_merchant p)) (am_longitude (pw_merchant p))"

text \<open>
  The distance from a coordinate to the merchant of every row of the store is a number
  (not NaN).
\<close>

definition numericDistances :: "runtime \<Rightarrow> real \<times> real \<Rightarrow> store \<Rightarrow> bool" where
  "numericDistances rt location st =
     list_all (\<lambda>product.
         calculateDistance rt (fst location) (snd location)
           (m_latitude (p_merchant product)) (m_longitude (p_merchant product)) \<noteq> NaN)
       (productTable st)"

text \<open>\<^verbatim>\<open>x <= y\<close> on numbers: false when either is NaN.\<close>

fun number_le :: "number \<Rightarrow> number \<Rightarrow> bool" where
  "number_le (Finite x) (Finite y) = (x \<le> y)"
| "number_le NaN y = False"
| "number_le x NaN = False"
| "number_le NegInfinity y = True"
| "number_le x PosInfinity = True"
| "number_le x y = False"

text \<open>
  Rounding is monotone: of two exact results, the larger one does not round to the
  smaller double (as in every rounding mode of IEEE 754).
\<close>

definition monotoneRounding :: "runtime \<Rightarrow> bool" where
  "monotoneRounding rt =
     (\<forall>x y a b. x \<le> y \<and> roundToDouble rt x = Some a \<and> roundToDouble rt y = Some b \<longrightarrow> a \<le> b)"

text \<open>A consistent comparator on strings: a total preorder, read through the sign of
  the result.\<close>

definition consistentCompare :: "(string \<Rightarrow> string \<Rightarrow> int) \<Rightarrow> bool" where
  "consistentCompare cmp =
     ((\<forall>a b. cmp a b \<le> 0 \<or> cmp b a \<le> 0) \<and>
      (\<forall>a b c. cmp a b \<le> 0 \<and> cmp b c \<le> 0 \<longrightarrow> cmp a c \<le> 0))"


section \<open>Sample data\<close>

text \<open>
  A runtime, a store and requests for the examples. \<open>decimalLiteral\<close> gives the value of
  \<^verbatim>\<open>Number(s)\<close> and of \<^verbatim>\<open>parseFloat(s)\<close> on the decimal literals the examples use (NaN
  stands in elsewhere); \<open>codeUnitCompare\<close> orders strings by their characters. The
  arithmetic of the sample runtime is exact: every real is its own rounding, and the
  sine, cosine and two-argument arctangent are the mathematical ones. The examples that
  depend on a distance leave a margin many orders of magnitude above the rounding
  error of doubles.
\<close>

definition atan2 :: "real \<Rightarrow> real \<Rightarrow> real" where
  "atan2 y x =
     (if 0 < x then arctan (y / x)
      else if x < 0 then (if 0 \<le> y then arctan (y / x) + pi else arctan (y / x) - pi)
      else if 0 < y then pi / 2
      else if y < 0 then - (pi / 2)
      else 0)"

definition sampleNumbers :: "(string \<times> real) list" where
  "sampleNumbers =
     [(''0'', 0), (''5'', 5), (''8'', 8), (''10'', 10), (''20'', 20), (''1.09'', 109 / 100),
      (''-28.6434'', - 28.6434), (''153.6148'', 153.6148)]"

definition decimalLiteral :: "string \<Rightarrow> number" where
  "decimalLiteral s = (case map_of sampleNumbers s of None \<Rightarrow> NaN | Some r \<Rightarrow> Finite r)"

fun codeUnitCompare :: "string \<Rightarrow> string \<Rightarrow> int" where
  "codeUnitCompare [] [] = 0"
| "codeUnitCompare [] (y # ys) = - 1"
| "codeUnitCompare (x # xs) [] = 1"
| "codeUnitCompare (x # xs) (y # ys) =
     (if (of_char x :: nat) < of_char y then - 1
      else if (of_char y :: nat) < of_char x then 1
      else codeUnitCompare xs ys)"

definition sampleRuntime :: runtime where
  "sampleRuntime =
     \<lparr>StringToNumber = decimalLiteral, parseFloat = decimalLiteral,
      localeCompare = codeUnitCompare, roundPositive = Some,
      sinOfPositive = sin, cosOf = cos, atan2Of = atan2\<rparr>"

definition sampleEnv :: env where
  "sampleEnv =
     \<lparr>DATABASE_URL = Some ''postgresql://localhost/inventory'',
      startTime = 1000, mapTime = 1004, endTime = 1012\<rparr>"

definition byronMerchant :: dbMerchant where
  "byronMerchant =
     \<lparr>m_id = ''m1'', m_name = ''Byron Bay Clothing Co.'', m_address = ''123 Jonson Street'',
      m_latitude = - 28.6434, m_longitude = 153.6148, m_isActive = True\<rparr>"

definition classicHoodie :: dbProduct where
  "classicHoodie =
     \<lparr>p_id = ''p1'', p_name = ''Classic Black Hoodie'',
      p_description = Some ''Comfortable cotton blend hoodie'', p_category = Some ''Clothing'',
      p_imageUrl = None, p_basePrice = Some 59.99, p_isActive = True,
      p_merchant = byronMerchant,
      p_variations =
        [\<lparr>v_id = ''v1'', v_name = ''Medium'', v_price = 59.99, v_attributes = ''size=M'',
          v_inventory = [\<lparr>quantity = 5, lastSyncAt = 900\<rparr>]\<rparr>,
         \<lparr>v_id = ''v2'', v_name = ''Large'', v_price = 59.99, v_attributes = ''size=L'',
          v_inventory = [\<lparr>quantity = 7, lastSyncAt = 900\<rparr>]\<rparr>]\<rparr>"

definition zipHoodie :: dbProduct where
  "zipHoodie =
     \<lparr>p_id = ''p2'', p_name = ''Zip Hoodie'',
      p_description = None, p_category = Some ''Clothing'',
      p_imageUrl = None, p_basePrice = None, p_isActive = True,
      p_merchant = byronMerchant,
      p_variations =
        [\<lparr>v_id = ''v3'', v_name = ''One size'', v_price = 45, v_attributes = '''',
          v_inventory = [\<lparr>quantity = 3, lastSyncAt = 950\<rparr>]\<rparr>]\<rparr>"

definition surfHoodie :: dbProduct where
  "surfHoodie =
     \<lparr>p_id = ''p3'', p_name = ''Surf Hoodie'',
      p_description = Some ''Light hoodie'', p_category = None,
      p_imageUrl = None, p_basePrice = Some 39, p_isActive = True,
      p_merchant = byronMerchant,
      p_variations =
        [\<lparr>v_id = ''v4'', v_name = ''Small'', v_price = 39, v_attributes = ''size=S'',
          v_inventory = [\<lparr>quantity = 1, lastSyncAt = 950\<rparr>]\<rparr>,
         \<lparr>v_id = ''v5'', v_name = ''Medium'', v_price = 39, v_attributes = ''size=M'',
          v_inventory = [\<lparr>quantity = 2, lastSyncAt = 950\<rparr>]\<rparr>,
         \<lparr>v_id = ''v6'', v_name = ''Large'', v_price = 39, v_attributes = ''size=L'',
          v_inventory = []\<rparr>]\<rparr>"

definition sampleStore :: store where
  "sampleStore =
     \<lparr>productTable = [zipHoodie, classicHoodie, surfHoodie], searchTable = [],
      readable = True, writable = True\<rparr>"

definition sampleSearch :: searchParams where
  "sampleSearch =
     map_of [(''query'', ''hoodie''), (''lat'', ''-28.6434''), (''lng'', ''153.6148''),
             (''radius'', ''10''), (''limit'', ''20''), (''category'', ''''),
             (''inStock'', ''true'')]"

definition sampleValidated :: validatedParams where
  "sampleValidated =
     \<lparr>vp_query = ''hoodie'', vp_lat = Some (- 28.6434), vp_lng = Some 153.6148,
      vp_radius = 10, vp_limit = 20, vp_category = Some '''', vp_inStock = True\<rparr>"

definition sampleResults :: "productWithMerchant list" where
  "sampleResults =
     [transformProduct 1004 classicHoodie (Some 0) 12,
      transformProduct 1004 surfHoodie (Some 0) 3,
      transformProduct 1004 zipHoodie (Some 0) 3]"

definition sampleData :: searchData where
  "sampleData =
     \<lparr>sd_products = sampleResults,
      sd_pagination = \<lparr>pg_total = 3, pg_page = 1, pg_limit = 20, pg_hasMore = False\<rparr>,
      sd_searchMeta = \<lparr>sm_query = ''hoodie'', sm_location = (- 28.6434, 153.6148),
                       sm_radius = 10, sm_executionTime = 12\<rparr>\<rparr>"

definition sampleLogEntry :: searchLogEntry where
  "sampleLogEntry =
     \<lparr>log_query = ''hoodie'', log_latitude = - 28.6434, log_longitude = 153.6148,
      log_radius = 10, log_results = 3\<rparr>"

text \<open>The payload of a success response.\<close>

fun payload :: "'a response \<Rightarrow> 'a option" where
  "payload (Success x) = Some x"
| "payload (Failure status code details) = None"

definition queryOnlySearch :: searchParams where
  "queryOnlySearch = map_of [(''query'', ''hoodie'')]"

definition noCoordinatesSearch :: searchParams where
  "noCoordinatesSearch =
     map_of [(''query'', ''hoodie''), (''radius'', ''10''), (''limit'', ''20''),
             (''category'', ''''), (''inStock'', ''true'')]"


definition emptyQuerySuggest :: searchParams where
  "emptyQuerySuggest = map_of [(''limit'', ''10'')]"

definition shSuggest :: searchParams where
  "shSuggest = map_of [(''query'', ''SH''), (''limit'', ''5'')]"

definition atMerchantLookup :: searchParams where
  "atMerchantLookup = map_of [(''lat'', ''-28.6434''), (''lng'', ''153.6148'')]"

definition retiredProduct :: dbProduct where
  "retiredProduct =
     classicHoodie\<lparr>p_id := ''p9'', p_isActive := False,
                   p_merchant := byronMerchant\<lparr>m_isActive := False\<rparr>\<rparr>"

definition archiveStore :: store where
  "archiveStore = sampleStore\<lparr>productTable := [zipHoodie, retiredProduct]\<rparr>"

text \<open>Setting the active flags of a product row and of its merchant.\<close>

definition withActiveFlags :: "bool \<Rightarrow> bool \<Rightarrow> dbProduct \<Rightarrow> dbProduct" where
  "withActiveFlags productActive merchantActive p =
     p\<lparr>p_isActive := productActive, p_merchant := (p_merchant p)\<lparr>m_isActive := merchantActive\<rparr>\<rparr>"

definition northMerchant :: dbMerchant where
  "northMerchant =
     \<lparr>m_id = ''m2'', m_name = ''Belongil Surf Shop'', m_address = ''2 Border Street'',
      m_latitude = - 28.6338, m_longitude = 153.6148, m_isActive = True\<rparr>"

definition northHoodie :: dbProduct where
  "northHoodie =
     \<lparr>p_id = ''p5'', p_name = ''Beach Hoodie'',
      p_description = None, p_category = Some ''Clothing'',
      p_imageUrl = None, p_basePrice = Some 49, p_isActive = True,
      p_merchant = northMerchant,
      p_variations =
        [\<lparr>v_id = ''v7'', v_name = ''One size'', v_price = 49, v_attributes = '''',
          v_inventory = [\<lparr>quantity = 4, lastSyncAt = 990\<rparr>]\<rparr>]\<rparr>"






definition nearHoodie :: dbProduct where
  "nearHoodie =
     \<lparr>p_id = ''p10'', p_name = ''Dune Hoodie'',
      p_description = None, p_category = Some ''Clothing'',
      p_imageUrl = None, p_basePrice = Some 60, p_isActive = True,
      p_merchant = byronMerchant\<lparr>m_id := ''m3'', m_name := ''Dune Store'', m_latitude := - 28.6346\<rparr>,
      p_variations =
        [\<lparr>v_id = ''v10'', v_name = ''One size'', v_price = 60, v_attributes = '''',
          v_inventory = [\<lparr>quantity = 1, lastSyncAt = 990\<rparr>]\<rparr>]\<rparr>"

definition farHoodie :: dbProduct where
  "farHoodie =
     \<lparr>p_id = ''p11'', p_name = ''Reef Hoodie'',
      p_description = None, p_category = Some ''Clothing'',
      p_imageUrl = None, p_basePrice = Some 60, p_isActive = True,
      p_merchant = byronMerchant\<lparr>m_id := ''m4'', m_name := ''Reef Store'', m_latitude := - 28.6342\<rparr>,
      p_variations =
        [\<lparr>v_id = ''v11'', v_name = ''One size'', v_price = 60, v_attributes = '''',
          v_inventory = [\<lparr>quantity = 5, lastSyncAt = 990\<rparr>]\<rparr>]\<rparr>"

definition twoStoresStore :: store where
  "twoStoresStore =
     \<lparr>productTable = [farHoodie, nearHoodie], searchTable = [], readable = True, writable = True\<rparr>"

text \<open>
  A runtime with the IEEE 754 results (round to nearest, sine and cosine correctly
  rounded) of the operations that the distance between the coordinate (8, 0) and its
  antipode (-8, 180) takes: the quotient \<^verbatim>\<open>Math.PI / 180\<close>, the product of 180 and that
  quotient, the squares of the sine and the cosine of 8 degrees, and their sum, which is
  rounded upwards to the double after 1. The other operations are exact in doubles,
  except the square root of \<open>a\<close>, whose value does not matter: the difference
  \<^verbatim>\<open>1 - a\<close> is negative and its square root is NaN.
\<close>

definition antipodalRoundings :: "(real \<times> real) list" where
  "antipodalRoundings =
     [(176855943800711 / 10133099161583616, 5030569068109113 / 288230376151711744),
      (226375608064910085 / 72057594037927936, 884279719003555 / 281474976710656),
      (25142596810554238581887470460529 / 1298074214633706907132624082305024,
       1395694493897217 / 72057594037927936),
      (19889556528486762294526464184969 / 20282409603651670423947251286016,
       8832737443003841 / 9007199254740992),
      (72057594037927945 / 72057594037927936, 4503599627370497 / 4503599627370496)]"

definition antipodalSines :: "(real \<times> real) list" where
  "antipodalSines =
     [(5030569068109113 / 36028797018963968, 5014239404989977 / 36028797018963968),
      (884279719003555 / 562949953421312, 1)]"

definition antipodalCosines :: "(real \<times> real) list" where
  "antipodalCosines =
     [(5030569068109113 / 36028797018963968, 4459770905381437 / 4503599627370496),
      (- (5030569068109113 / 36028797018963968), 4459770905381437 / 4503599627370496)]"

definition antipodalRuntime :: runtime where
  "antipodalRuntime =
     sampleRuntime
       \<lparr>roundPositive := (\<lambda>x. case map_of antipodalRoundings x of Some d \<Rightarrow> Some d | None \<Rightarrow> Some x),
        sinOfPositive := (\<lambda>x. case map_of antipodalSines x of Some s \<Rightarrow> s | None \<Rightarrow> sin x),
        cosOf := (\<lambda>x. case map_of antipodalCosines x of Some c \<Rightarrow> c | None \<Rightarrow> cos x)\<rparr>"

definition antipodeMerchant :: dbMerchant where
  "antipodeMerchant =
     \<lparr>m_id = ''m5'', m_name = ''Far Side Outfitters'', m_address = ''1 Reef Road'',
      m_latitude = - 8, m_longitude = 180, m_isActive = True\<rparr>"

definition antipodeHoodie :: dbProduct where
  "antipodeHoodie =
     \<lparr>p_id = ''p12'', p_name = ''Far Side Hoodie'',
      p_description = None, p_category = Some ''Clothing'',
      p_imageUrl = None, p_basePrice = Some 70, p_isActive = True,
      p_merchant = antipodeMerchant,
      p_variations =
        [\<lparr>v_id = ''v12'', v_name = ''One size'', v_price = 70, v_attributes = '''',
          v_inventory = [\<lparr>quantity = 2, lastSyncAt = 990\<rparr>]\<rparr>]\<rparr>"

definition antipodeStore :: store where
  "antipodeStore =
     \<lparr>productTable = [antipodeHoodie], searchTable = [], readable = True, writable = True\<rparr>"

definition antipodalSearch :: searchParams where
  "antipodalSearch =
     map_of [(''query'', ''hoodie''), (''lat'', ''8''), (''lng'', ''0''),
             (''radius'', ''10''), (''limit'', ''20''), (''category'', ''''),
             (''inStock'', ''true'')]"

definition antipodalValidated :: validatedParams where
  "antipodalValidated = sampleValidated\<lparr>vp_lat := Some 8, vp_lng := Some 0\<rparr>"


section \<open>Double arithmetic\<close>

lemma roundToDouble_minus: "roundToDouble rt (- x) = map_option uminus (roundToDouble rt x)"
proof (cases "roundPositive rt x")
  case None
  then show ?thesis
    by (cases "roundPositive rt (- x)") (simp_all add: roundToDouble_def)
next
  case (Some a)
  then show ?thesis
    by (cases "roundPositive rt (- x)") (simp_all add: roundToDouble_def)
qed

lemma fsub_swap: "fsub rt x y = map_option uminus (fsub rt y x)"
  using roundToDouble_minus[of rt "y - x"] by (simp add: fsub_def)

lemma fmul_minus_left: "fmul rt (- x) y = map_option uminus (fmul rt x y)"
  using roundToDouble_minus[of rt "x * y"] by (simp add: fmul_def)

lemma fmul_minus_right: "fmul rt x (- y) = map_option uminus (fmul rt x y)"
  using roundToDouble_minus[of rt "x * y"] by (simp add: fmul_def)

lemma fmul_minus_minus: "fmul rt (- x) (- y) = fmul rt x y"
  by (simp add: fmul_def)

lemma fmul_commute: "fmul rt x y = fmul rt y x"
  by (simp add: fmul_def mult.commute)

lemma fdiv_minus_left: "fdiv rt (- x) y = map_option uminus (fdiv rt x y)"
  using roundToDouble_minus[of rt "x / y"] by (simp add: fdiv_def)

lemma Math_sin_minus: "Math_sin rt (- x) = - Math_sin rt x"
  by (simp add: Math_sin_def)

lemma toRadians_minus: "toRadians rt (- x) = map_option uminus (toRadians rt x)"
  by (cases "fdiv rt Math_PI 180") (simp_all add: toRadians_def fmul_minus_left)

lemma halfAngleSine_swap: "halfAngleSine rt x2 x1 = map_option uminus (halfAngleSine rt x1 x2)"
proof (cases "fsub rt x2 x1")
  case None
  then show ?thesis using fsub_swap[of rt x1 x2] by (simp add: halfAngleSine_def)
next
  case (Some d)
  then have swap: "fsub rt x1 x2 = Some (- d)" using fsub_swap[of rt x1 x2] by simp
  show ?thesis
  proof (cases "toRadians rt d")
    case None
    then show ?thesis using Some swap by (simp add: halfAngleSine_def toRadians_minus)
  next
    case r: (Some r)
    show ?thesis
    proof (cases "fdiv rt r 2")
      case None
      then show ?thesis using Some swap r
        by (simp add: halfAngleSine_def toRadians_minus fdiv_minus_left)
    next
      case h: (Some h)
      then show ?thesis using Some swap r
        by (simp add: halfAngleSine_def toRadians_minus fdiv_minus_left Math_sin_minus)
    qed
  qed
qed

lemma haversineTerm_swap:
  "haversineTerm rt lat2 lng2 lat1 lng1 = haversineTerm rt lat1 lng1 lat2 lng2"
proof (cases "halfAngleSine rt lat1 lat2")
  case None
  then show ?thesis
    by (simp add: haversineTerm_def halfAngleSine_swap[of rt lat2 lat1])
next
  case sLat: (Some sLat)
  show ?thesis
  proof (cases "halfAngleSine rt lng1 lng2")
    case None
    then show ?thesis using sLat
      by (simp add: haversineTerm_def halfAngleSine_swap[of rt lat2 lat1]
            halfAngleSine_swap[of rt lng2 lng1])
  next
    case sLng: (Some sLng)
    have start: "haversineTerm rt lat2 lng2 lat1 lng1 =
        do { sLat2 \<leftarrow> fmul rt sLat sLat;
             c2 \<leftarrow> cosOfDegrees rt lat2;
             c1 \<leftarrow> cosOfDegrees rt lat1;
             cc \<leftarrow> fmul rt c2 c1;
             ccs \<leftarrow> fmul rt cc (- sLng);
             ccss \<leftarrow> fmul rt ccs (- sLng);
             fadd rt sLat2 ccss }"
      using sLat sLng
      by (simp add: haversineTerm_def halfAngleSine_swap[of rt lat2 lat1]
            halfAngleSine_swap[of rt lng2 lng1] fmul_minus_minus)
    have other: "haversineTerm rt lat1 lng1 lat2 lng2 =
        do { sLat2 \<leftarrow> fmul rt sLat sLat;
             c1 \<leftarrow> cosOfDegrees rt lat1;
             c2 \<leftarrow> cosOfDegrees rt lat2;
             cc \<leftarrow> fmul rt c1 c2;
             ccs \<leftarrow> fmul rt cc sLng;
             ccss \<leftarrow> fmul rt ccs sLng;
             fadd rt sLat2 ccss }"
      using sLat sLng by (simp add: haversineTerm_def)
    show ?thesis
    proof (cases "fmul rt sLat sLat")
      case None
      then show ?thesis unfolding start other by simp
    next
      case p: (Some p)
      show ?thesis
      proof (cases "cosOfDegrees rt lat1")
        case None
        then show ?thesis unfolding start other using p
          by (cases "cosOfDegrees rt lat2") simp_all
      next
        case c1: (Some c1)
        show ?thesis
        proof (cases "cosOfDegrees rt lat2")
          case None
          then show ?thesis unfolding start other using p c1 by simp
        next
          case c2: (Some c2)
          show ?thesis
          proof (cases "fmul rt c1 c2")
            case None
            then show ?thesis unfolding start other using p c1 c2
              by (simp add: fmul_commute[of rt c2 c1])
          next
            case cc: (Some cc)
            show ?thesis
            proof (cases "fmul rt cc sLng")
              case None
              then show ?thesis unfolding start other using p c1 c2 cc
                by (simp add: fmul_commute[of rt c2 c1] fmul_minus_right)
            next
              case (Some ccs)
              then show ?thesis unfolding start other using p c1 c2 cc
                by (cases "fmul rt ccs sLng")
                   (simp_all add: fmul_commute[of rt c2 c1] fmul_minus_right fmul_minus_left)
            qed
          qed
        qed
      qed
    qed
  qed
qed

text \<open>The distance is NaN as soon as the rounded \<open>a\<close> exceeds 1.\<close>

lemma calculateDistance_NaN:
  assumes "haversineTerm rt lat1 lng1 lat2 lng2 = Some a"
      and "fsub rt 1 a = Some m" and "m < 0"
  shows "calculateDistance rt lat1 lng1 lat2 lng2 = NaN"
  using assms by (cases "Math_sqrt rt a") (simp_all add: calculateDistance_def Math_sqrt_def)

lemma calculateDistance_cases:
  "calculateDistance rt lat1 lng1 lat2 lng2 = NaN \<or>
   (\<exists>x. calculateDistance rt lat1 lng1 lat2 lng2 = Finite x)"
  unfolding calculateDistance_def by (simp split: option.split)

section \<open>Properties of the search handler\<close>

lemma product_findMany_SomeD:
  "product_findMany st w n = Some products \<Longrightarrow> readable st \<and> set products \<subseteq> set (productTable st)"
  unfolding product_findMany_def by (auto split: if_splits dest: in_set_takeD)

lemma search_GET_SuccessD:
  assumes "fst (search_GET rt env st sp) = Success d"
  shows "\<exists>vp products.
           searchSchema_parse rt (searchParams_get sp) = Inr vp \<and>
           product_findMany st (buildWhereClause vp) (vp_limit vp * 2) = Some products \<and>
           writable st \<and>
           sd_products d = map it_product
              (rankedItems rt vp (fst (sm_location (sd_searchMeta d)))
                 (snd (sm_location (sd_searchMeta d))) (mapTime env) products) \<and>
           sm_location (sd_searchMeta d) =
              ((case vp_lat vp of Some x \<Rightarrow> x | None \<Rightarrow> fst BYRON_BAY_COORDS),
               (case vp_lng vp of Some x \<Rightarrow> x | None \<Rightarrow> snd BYRON_BAY_COORDS)) \<and>
           sm_radius (sd_searchMeta d) = vp_radius vp \<and>
           pg_limit (sd_pagination d) = vp_limit vp"
  using assms
  unfolding search_GET_def Let_def search_create_def
  by (auto split: if_splits sum.splits option.splits)

lemma set_insertSorted: "set (insertSorted cmp x ys) = insert x (set ys)"
  by (induction ys) auto

lemma set_Array_sort: "set (Array_sort cmp xs) = set xs"
  by (induction xs) (auto simp: set_insertSorted)

lemma candidates_member:
  assumes "x \<in> set (List.map_filter (searchCandidate rt vp userLat userLng now) products)"
  shows "\<exists>product \<in> set products. searchCandidate rt vp userLat userLng now product = Some x"
  using assms by (auto simp: List.map_filter_def)

lemma rankedItems_member:
  assumes "x \<in> set (rankedItems rt vp userLat userLng now products)"
  shows "\<exists>product \<in> set products. searchCandidate rt vp userLat userLng now product = Some x"
proof -
  from assms have "x \<in> set (List.map_filter (searchCandidate rt vp userLat userLng now) products)"
    unfolding rankedItems_def by (auto dest: in_set_takeD simp: set_Array_sort)
  then show ?thesis by (rule candidates_member)
qed

lemma searchCandidate_SomeD:
  assumes "searchCandidate rt vp userLat userLng now product = Some x"
  shows "it_distance x = calculateDistance rt userLat userLng (m_latitude (p_merchant product)) (m_longitude (p_merchant product))"
    and "\<not> number_greater (it_distance x) (vp_radius vp)"
    and "it_product x = transformProduct now product (oneDecimal rt (it_distance x)) (totalStockOf product)"
    and "vp_inStock vp \<Longrightarrow> totalStockOf product \<noteq> 0"
  using assms unfolding searchCandidate_def Let_def
  by (auto split: if_splits)

text \<open>A product whose distance is NaN passes the radius test, whatever the radius, and
  is returned without a distance.\<close>

lemma searchCandidate_NaN:
  assumes "calculateDistance rt userLat userLng (m_latitude (p_merchant product))
             (m_longitude (p_merchant product)) = NaN"
      and "totalStockOf product \<noteq> 0"
  shows "searchCandidate rt vp userLat userLng now product =
           Some \<lparr>it_product = transformProduct now product None (totalStockOf product),
                 it_distance = NaN\<rparr>"
  using assms by (simp add: searchCandidate_def Let_def)

lemma Math_round_mono: "x \<le> y \<Longrightarrow> Math_round x \<le> Math_round y"
  unfolding Math_round_def by (simp add: floor_mono)

lemma monotoneRoundingD:
  "monotoneRounding rt \<Longrightarrow> x \<le> y \<Longrightarrow> roundToDouble rt x = Some a \<Longrightarrow> roundToDouble rt y = Some b
     \<Longrightarrow> a \<le> b"
  unfolding monotoneRounding_def by blast

lemma roundToOneDecimal_mono:
  assumes mono: "monotoneRounding rt" and le: "x \<le> y"
      and a: "roundToOneDecimal rt x = Some a" and b: "roundToOneDecimal rt y = Some b"
  shows "a \<le> b"
proof -
  from a obtain m where m: "roundToDouble rt (x * 10) = Some m"
      and a': "roundToDouble rt (Math_round m / 10) = Some a"
    unfolding roundToOneDecimal_def fmul_def fdiv_def by (auto split: Option.bind_splits)
  from b obtain n where n: "roundToDouble rt (y * 10) = Some n"
      and b': "roundToDouble rt (Math_round n / 10) = Some b"
    unfolding roundToOneDecimal_def fmul_def fdiv_def by (auto split: Option.bind_splits)
  from le have "x * 10 \<le> y * 10" by simp
  from monotoneRoundingD[OF mono this m n] have "Math_round m \<le> Math_round n"
    by (rule Math_round_mono)
  then have "Math_round m / 10 \<le> Math_round n / 10" by simp
  from monotoneRoundingD[OF mono this a' b'] show ?thesis .
qed

text \<open>Sorting, for a comparator that is consistent on the elements at hand.\<close>

lemma sorted_insertSorted:
  assumes tot: "\<And>a b. P a \<Longrightarrow> P b \<Longrightarrow>
                  comparatorValue (cmp a b) \<le> 0 \<or> comparatorValue (cmp b a) \<le> 0"
      and tr: "\<And>a b c. P a \<Longrightarrow> P b \<Longrightarrow> P c \<Longrightarrow> comparatorValue (cmp a b) \<le> 0 \<Longrightarrow>
                  comparatorValue (cmp b c) \<le> 0 \<Longrightarrow> comparatorValue (cmp a c) \<le> 0"
      and px: "P x"
      and "\<forall>y \<in> set ys. P y"
      and "sorted_wrt (\<lambda>a b. comparatorValue (cmp a b) \<le> 0) ys"
  shows "sorted_wrt (\<lambda>a b. comparatorValue (cmp a b) \<le> 0) (insertSorted cmp x ys)"
  using assms(4,5)
proof (induction ys)
  case Nil
  then show ?case by simp
next
  case (Cons y ys)
  from Cons.prems have py: "P y" and pys: "\<forall>z \<in> set ys. P z"
      and yle: "\<forall>z \<in> set ys. comparatorValue (cmp y z) \<le> 0"
      and sorted: "sorted_wrt (\<lambda>a b. comparatorValue (cmp a b) \<le> 0) ys"
    by simp_all
  show ?case
  proof (cases "comparatorValue (cmp x y) \<le> 0")
    case True
    have "comparatorValue (cmp x z) \<le> 0" if "z \<in> set ys" for z
    proof -
      from that pys have "P z" by simp
      moreover from that yle have "comparatorValue (cmp y z) \<le> 0" by simp
      ultimately show ?thesis using tr[OF px py _ True] by simp
    qed
    with True yle sorted show ?thesis by simp
  next
    case False
    then have "comparatorValue (cmp y x) \<le> 0" using tot[OF px py] by simp
    moreover have "sorted_wrt (\<lambda>a b. comparatorValue (cmp a b) \<le> 0) (insertSorted cmp x ys)"
      using pys sorted by (rule Cons.IH)
    ultimately show ?thesis using False yle by (simp add: set_insertSorted)
  qed
qed

lemma sorted_Array_sort:
  assumes tot: "\<And>a b. P a \<Longrightarrow> P b \<Longrightarrow>
                  comparatorValue (cmp a b) \<le> 0 \<or> comparatorValue (cmp b a) \<le> 0"
      and tr: "\<And>a b c. P a \<Longrightarrow> P b \<Longrightarrow> P c \<Longrightarrow> comparatorValue (cmp a b) \<le> 0 \<Longrightarrow>
                  comparatorValue (cmp b c) \<le> 0 \<Longrightarrow> comparatorValue (cmp a c) \<le> 0"
      and "\<forall>x \<in> set xs. P x"
  shows "sorted_wrt (\<lambda>a b. comparatorValue (cmp a b) \<le> 0) (Array_sort cmp xs)"
  using assms(3)
proof (induction xs)
  case Nil
  then show ?case by simp
next
  case (Cons x xs)
  from Cons.prems have px: "P x" and pxs: "\<forall>y \<in> set xs. P y" by simp_all
  from pxs have all: "\<forall>y \<in> set (Array_sort cmp xs). P y" by (simp add: set_Array_sort)
  have "sorted_wrt (\<lambda>a b. comparatorValue (cmp a b) \<le> 0) (Array_sort cmp xs)"
    using pxs by (rule Cons.IH)
  have "sorted_wrt (\<lambda>a b. comparatorValue (cmp a b) \<le> 0)
          (insertSorted cmp x (Array_sort cmp xs))"
  proof (rule sorted_insertSorted[where P = P and cmp = cmp])
    show "comparatorValue (cmp a b) \<le> 0 \<or> comparatorValue (cmp b a) \<le> 0" if "P a" "P b" for a b
      using that by (rule tot)
    show "comparatorValue (cmp a c) \<le> 0"
      if "P a" "P b" "P c" "comparatorValue (cmp a b) \<le> 0" "comparatorValue (cmp b c) \<le> 0"
      for a b c
      using that by (rule tr)
    show "P x" by (rule px)
    show "\<forall>y \<in> set (Array_sort cmp xs). P y" by (rule all)
    show "sorted_wrt (\<lambda>a b. comparatorValue (cmp a b) \<le> 0) (Array_sort cmp xs)" by fact
  qed
  then show ?case by simp
qed

lemma consistentCompare_total: "consistentCompare cmp \<Longrightarrow> cmp a b \<le> 0 \<or> cmp b a \<le> 0"
  unfolding consistentCompare_def by (elim conjE) (erule allE[of _ a], erule allE[of _ b], assumption)

lemma consistentCompare_trans:
  "consistentCompare cmp \<Longrightarrow> cmp a b \<le> 0 \<Longrightarrow> cmp b c \<le> 0 \<Longrightarrow> cmp a c \<le> 0"
  unfolding consistentCompare_def by meson

lemma lex3_total:
  fixes da db :: real and sa sb :: int
  assumes "nab \<or> nba"
  shows "(da < db \<or> (da = db \<and> (sb < sa \<or> (sa = sb \<and> nab)))) \<or>
         (db < da \<or> (db = da \<and> (sa < sb \<or> (sb = sa \<and> nba))))"
  using assms by auto

lemma lex3_trans:
  fixes da db dc :: real and sa sb sc :: int
  assumes "da < db \<or> (da = db \<and> (sb < sa \<or> (sa = sb \<and> nab)))"
      and "db < dc \<or> (db = dc \<and> (sc < sb \<or> (sb = sc \<and> nbc)))"
      and "nab \<Longrightarrow> nbc \<Longrightarrow> nac"
  shows "da < dc \<or> (da = dc \<and> (sc < sa \<or> (sa = sc \<and> nac)))"
  using assms by auto

text \<open>The comparator on two items whose distances are numbers.\<close>

lemma compareItems_le_iff:
  assumes "it_distance a = Finite da" "it_distance b = Finite db"
  shows "comparatorValue (compareItems rt a b) \<le> 0 \<longleftrightarrow>
     da < db \<or>
     (da = db \<and>
      (pw_totalStock (it_product b) < pw_totalStock (it_product a) \<or>
       (pw_totalStock (it_product a) = pw_totalStock (it_product b) \<and>
        localeCompare rt (pw_name (it_product a)) (pw_name (it_product b)) \<le> 0)))"
proof (cases "da = db")
  case False
  then show ?thesis unfolding compareItems_def assms by auto
next
  case True
  show ?thesis
  proof (cases "pw_totalStock (it_product a) = pw_totalStock (it_product b)")
    case False
    with True show ?thesis unfolding compareItems_def assms by auto
  next
    case eq: True
    with True show ?thesis unfolding compareItems_def assms by simp
  qed
qed

lemma compareItems_total:
  assumes "consistentCompare (localeCompare rt)"
      and "\<exists>x. it_distance a = Finite x" "\<exists>x. it_distance b = Finite x"
  shows "comparatorValue (compareItems rt a b) \<le> 0 \<or> comparatorValue (compareItems rt b a) \<le> 0"
proof -
  from assms(2,3) obtain da db where a: "it_distance a = Finite da" and b: "it_distance b = Finite db"
    by blast
  show ?thesis
    unfolding compareItems_le_iff[OF a b] compareItems_le_iff[OF b a]
    by (rule lex3_total) (rule consistentCompare_total[OF assms(1)])
qed

lemma compareItems_trans:
  assumes "consistentCompare (localeCompare rt)"
      and "\<exists>x. it_distance a = Finite x" "\<exists>x. it_distance b = Finite x" "\<exists>x. it_distance c = Finite x"
      and "comparatorValue (compareItems rt a b) \<le> 0" "comparatorValue (compareItems rt b c) \<le> 0"
  shows "comparatorValue (compareItems rt a c) \<le> 0"
proof -
  from assms(2,3,4) obtain da db dc where
      a: "it_distance a = Finite da" and b: "it_distance b = Finite db" and c: "it_distance c = Finite dc"
    by blast
  show ?thesis
    unfolding compareItems_le_iff[OF a c]
    by (rule lex3_trans[OF assms(5)[unfolded compareItems_le_iff[OF a b]]
                           assms(6)[unfolded compareItems_le_iff[OF b c]]])
       (rule consistentCompare_trans[OF assms(1)])
qed

lemma numericDistances_candidates:
  assumes num: "numericDistances rt (userLat, userLng) st"
      and sub: "set products \<subseteq> set (productTable st)"
      and x: "x \<in> set (List.map_filter (searchCandidate rt vp userLat userLng now) products)"
  shows "\<exists>v. it_distance x = Finite v"
proof -
  from candidates_member[OF x] obtain product where
      p: "product \<in> set products"
      and c: "searchCandidate rt vp userLat userLng now product = Some x"
    by blast
  from p sub have "product \<in> set (productTable st)" by blast
  with num have "calculateDistance rt userLat userLng (m_latitude (p_merchant product))
      (m_longitude (p_merchant product)) \<noteq> NaN"
    unfolding numericDistances_def by (simp add: list_all_iff)
  with calculateDistance_cases[of rt userLat userLng "m_latitude (p_merchant product)"
         "m_longitude (p_merchant product)"]
  show ?thesis unfolding searchCandidate_SomeD(1)[OF c] by blast
qed

lemma rankedItems_sorted:
  assumes cmp: "consistentCompare (localeCompare rt)"
      and num: "numericDistances rt (userLat, userLng) st"
      and sub: "set products \<subseteq> set (productTable st)"
  shows "sorted_wrt (\<lambda>a b. comparatorValue (compareItems rt a b) \<le> 0)
           (rankedItems rt vp userLat userLng now products)"
proof -
  have all: "\<forall>x \<in> set (List.map_filter (searchCandidate rt vp userLat userLng now) products).
               \<exists>v. it_distance x = Finite v"
    using numericDistances_candidates[OF num sub] by blast
  have "sorted_wrt (\<lambda>a b. comparatorValue (compareItems rt a b) \<le> 0)
          (Array_sort (compareItems rt)
             (List.map_filter (searchCandidate rt vp userLat userLng now) products))"
  proof (rule sorted_Array_sort[where P = "\<lambda>a. \<exists>v. it_distance a = Finite v"
            and cmp = "compareItems rt"])
    show "comparatorValue (compareItems rt a b) \<le> 0 \<or> comparatorValue (compareItems rt b a) \<le> 0"
      if "\<exists>v. it_distance a = Finite v" "\<exists>v. it_distance b = Finite v" for a b
      using cmp that by (rule compareItems_total)
    show "comparatorValue (compareItems rt a c) \<le> 0"
      if "\<exists>v. it_distance a = Finite v" "\<exists>v. it_distance b = Finite v"
         "\<exists>v. it_distance c = Finite v"
         "comparatorValue (compareItems rt a b) \<le> 0" "comparatorValue (compareItems rt b c) \<le> 0"
      for a b c
      using cmp that by (rule compareItems_trans)
    show "\<forall>x \<in> set (List.map_filter (searchCandidate rt vp userLat userLng now) products).
               \<exists>v. it_distance x = Finite v"
      by (rule all)
  qed
  then show ?thesis unfolding rankedItems_def by (rule sorted_wrt_take)
qed

lemma rankedItems_length:
  assumes "1 \<le> vp_limit vp"
  shows "real (length (rankedItems rt vp userLat userLng now products)) \<le> vp_limit vp"
proof -
  have "length (rankedItems rt vp userLat userLng now products) \<le> nat \<lfloor>vp_limit vp\<rfloor>"
    unfolding rankedItems_def by simp
  then have "real (length (rankedItems rt vp userLat userLng now products)) \<le> real (nat \<lfloor>vp_limit vp\<rfloor>)"
    by (rule iffD2[OF of_nat_le_iff])
  also have "\<dots> = of_int \<lfloor>vp_limit vp\<rfloor>" using assms by simp
  also have "\<dots> \<le> vp_limit vp" by (rule of_int_floor_le)
  finally show ?thesis .
qed

lemma transformProduct_totalStock: "pw_totalStock (transformProduct now p d t) = t"
  by (simp add: transformProduct_def)

lemma transformProduct_name: "pw_name (transformProduct now p d t) = p_name p"
  by (simp add: transformProduct_def)

lemma transformProduct_fields:
  "pw_name (transformProduct now p d t) = p_name p"
  "am_latitude (pw_merchant (transformProduct now p d t)) = m_latitude (p_merchant p)"
  "am_longitude (pw_merchant (transformProduct now p d t)) = m_longitude (p_merchant p)"
  "am_distance (pw_merchant (transformProduct now p d t)) = d"
  "pw_variations (transformProduct now p d t) = map (transformVariation now) (p_variations p)"
  by (simp_all add: transformProduct_def)

text \<open>What the response tells about each returned product.\<close>

lemma search_result_item:
  assumes x: "x \<in> set (rankedItems rt vp (fst (sm_location (sd_searchMeta d)))
                 (snd (sm_location (sd_searchMeta d))) (mapTime env) products)"
  shows "it_distance x = computedDistance rt d (it_product x)"
    and "\<not> number_greater (it_distance x) (vp_radius vp)"
    and "am_distance (pw_merchant (it_product x)) = oneDecimal rt (it_distance x)"
    and "\<exists>product \<in> set products. pw_totalStock (it_product x) = totalStockOf product \<and>
            pw_variations (it_product x) = map (transformVariation (mapTime env)) (p_variations product) \<and>
            (vp_inStock vp \<longrightarrow> totalStockOf product \<noteq> 0)"
proof -
  from rankedItems_member[OF x] obtain product where
      p: "product \<in> set products" and
      c: "searchCandidate rt vp (fst (sm_location (sd_searchMeta d)))
            (snd (sm_location (sd_searchMeta d))) (mapTime env) product = Some x"
    by blast
  note facts = searchCandidate_SomeD[OF c]
  show "it_distance x = computedDistance rt d (it_product x)"
    unfolding computedDistance_def facts(3) transformProduct_fields by (rule facts(1))
  show "\<not> number_greater (it_distance x) (vp_radius vp)" by (rule facts(2))
  show "am_distance (pw_merchant (it_product x)) = oneDecimal rt (it_distance x)"
    unfolding facts(3) transformProduct_fields ..
  have "pw_totalStock (it_product x) = totalStockOf product"
    unfolding facts(3) transformProduct_totalStock ..
  moreover have "pw_variations (it_product x) = map (transformVariation (mapTime env)) (p_variations product)"
    unfolding facts(3) transformProduct_fields ..
  ultimately show "\<exists>product \<in> set products. pw_totalStock (it_product x) = totalStockOf product \<and>
            pw_variations (it_product x) = map (transformVariation (mapTime env)) (p_variations product) \<and>
            (vp_inStock vp \<longrightarrow> totalStockOf product \<noteq> 0)"
    using p facts(4) by blast
qed





section \<open>The sample runtime\<close>

lemma sampleRuntime_fields:
  "roundPositive sampleRuntime = Some" "sinOfPositive sampleRuntime = sin"
  "cosOf sampleRuntime = cos" "atan2Of sampleRuntime = atan2"
  "localeCompare sampleRuntime = codeUnitCompare"
  by (simp_all add: sampleRuntime_def)

lemma sample_roundToDouble: "roundToDouble sampleRuntime x = Some x"
  by (simp add: roundToDouble_def sampleRuntime_fields)

lemma sample_arithmetic:
  "fadd sampleRuntime x y = Some (x + y)"
  "fsub sampleRuntime x y = Some (x - y)"
  "fmul sampleRuntime x y = Some (x * y)"
  "y \<noteq> 0 \<Longrightarrow> fdiv sampleRuntime x y = Some (x / y)"
  "Math_sin sampleRuntime x = sin x"
  "Math_cos sampleRuntime x = cos x"
  "Math_atan2 sampleRuntime = atan2"
  "0 \<le> x \<Longrightarrow> Math_sqrt sampleRuntime x = Some (sqrt x)"
  by (simp_all add: fadd_def fsub_def fmul_def fdiv_def Math_sin_def Math_cos_def Math_atan2_def
        Math_sqrt_def sample_roundToDouble sampleRuntime_fields fun_eq_iff)

lemma sample_toRadians: "toRadians sampleRuntime x = Some (x * (Math_PI / 180))"
  by (simp add: toRadians_def sample_arithmetic)

lemma sample_halfAngleSine:
  "halfAngleSine sampleRuntime x1 x2 = Some (sin ((x2 - x1) * (Math_PI / 180) / 2))"
  by (simp add: halfAngleSine_def sample_arithmetic sample_toRadians)

lemma sample_cosOfDegrees: "cosOfDegrees sampleRuntime x = Some (cos (x * (Math_PI / 180)))"
  by (simp add: cosOfDegrees_def sample_arithmetic sample_toRadians)

lemma sample_roundToOneDecimal:
  "roundToOneDecimal sampleRuntime x = Some (Math_round (x * 10) / 10)"
  by (simp add: roundToOneDecimal_def sample_arithmetic)

lemma sample_monotoneRounding: "monotoneRounding sampleRuntime"
  by (simp add: monotoneRounding_def sample_roundToDouble)

text \<open>Along a meridian the sample runtime returns the length of the arc.\<close>

lemma sample_distance_meridian:
  assumes "0 \<le> lat2 - lat1" "lat2 - lat1 < 90"
  shows "calculateDistance sampleRuntime lat1 lng lat2 lng =
           Finite (6371 * ((lat2 - lat1) * (Math_PI / 180)))"
proof -
  define x where "x = (lat2 - lat1) * (Math_PI / 180) / 2"
  have x0: "0 \<le> x" unfolding x_def Math_PI_def using assms(1) by simp
  have "x < 1" unfolding x_def Math_PI_def using assms(2) by simp
  with pi_ge_two have x1: "x < pi / 2" by simp
  have sin0: "0 \<le> sin x" using x0 x1 by (intro sin_ge_zero) simp_all
  have cos0: "0 < cos x" using x0 x1 by (intro cos_gt_zero_pi) simp_all
  have a: "haversineTerm sampleRuntime lat1 lng lat2 lng = Some ((sin x)\<^sup>2)"
    by (simp add: haversineTerm_def sample_halfAngleSine sample_cosOfDegrees sample_arithmetic
          x_def power2_eq_square)
  have s: "sqrt ((sin x)\<^sup>2) = sin x" using sin0 by simp
  have "1 - (sin x)\<^sup>2 = (cos x)\<^sup>2" by (simp add: cos_squared_eq)
  then have c: "sqrt (1 - (sin x)\<^sup>2) = cos x" using cos0 by simp
  have nonneg: "0 \<le> 1 - (sin x)\<^sup>2" unfolding \<open>1 - (sin x)\<^sup>2 = (cos x)\<^sup>2\<close> by simp
  have "atan2 (sin x) (cos x) = arctan (tan x)" using cos0 by (simp add: atan2_def tan_def)
  also have "\<dots> = x" using x0 x1 by (intro arctan_tan) simp_all
  finally have at: "atan2 (sin x) (cos x) = x" .
  have sqrtA: "Math_sqrt sampleRuntime ((sin x)\<^sup>2) = Some (sin x)"
    unfolding Math_sqrt_def sample_roundToDouble s by simp
  have oneMinusA: "fsub sampleRuntime 1 ((sin x)\<^sup>2) = Some (1 - (sin x)\<^sup>2)"
    by (rule sample_arithmetic)
  have sqrtOneMinusA: "Math_sqrt sampleRuntime (1 - (sin x)\<^sup>2) = Some (cos x)"
    unfolding Math_sqrt_def sample_roundToDouble c using nonneg by simp
  have "calculateDistance sampleRuntime lat1 lng lat2 lng = Finite (6371 * (2 * x))"
    unfolding calculateDistance_def a bind.bind_lunit sqrtA oneMinusA sqrtOneMinusA
      sample_arithmetic(7) at sample_arithmetic(3)
    by simp
  then show ?thesis unfolding x_def by simp
qed

lemma calculateDistance_same: "calculateDistance sampleRuntime la lo la lo = Finite 0"
  using sample_distance_meridian[of la la lo] by simp

section \<open>The sample search, evaluated\<close>

lemma sampleSearch_parse:
  "searchSchema_parse sampleRuntime (searchParams_get sampleSearch) = Inr sampleValidated"
  by (simp add: searchSchema_parse_def searchParams_get_def sampleSearch_def sampleValidated_def
      zString_min_max_def zOptional_def zDefault_def zCoerceNumber_def zCoerceBoolean_def
      sampleRuntime_def decimalLiteral_def sampleNumbers_def)

lemma matches_zip: "matchesWhere (buildWhereClause sampleValidated) zipHoodie"
  by (simp add: matchesWhere_def buildWhereClause_def sampleValidated_def zipHoodie_def byronMerchant_def
        containsInsensitive_def orUndefined_string_def toLowerCase_def toLowerChar_def)

lemma matches_classic: "matchesWhere (buildWhereClause sampleValidated) classicHoodie"
  by (simp add: matchesWhere_def buildWhereClause_def sampleValidated_def classicHoodie_def byronMerchant_def
        containsInsensitive_def orUndefined_string_def toLowerCase_def toLowerChar_def)

lemma matches_surf: "matchesWhere (buildWhereClause sampleValidated) surfHoodie"
  by (simp add: matchesWhere_def buildWhereClause_def sampleValidated_def surfHoodie_def byronMerchant_def
        containsInsensitive_def orUndefined_string_def toLowerCase_def toLowerChar_def)

lemma codeUnitCompare_total: "codeUnitCompare a b \<le> 0 \<or> codeUnitCompare b a \<le> 0"
  by (induction a b rule: codeUnitCompare.induct) auto

lemma codeUnitCompare_Cons_le:
  "codeUnitCompare (x # xs) (y # ys) \<le> 0 \<longleftrightarrow>
     (of_char x :: nat) < of_char y \<or>
     ((of_char x :: nat) = of_char y \<and> codeUnitCompare xs ys \<le> 0)"
  by auto

lemma codeUnitCompare_trans:
  "codeUnitCompare a b \<le> 0 \<Longrightarrow> codeUnitCompare b c \<le> 0 \<Longrightarrow> codeUnitCompare a c \<le> 0"
proof (induction a arbitrary: b c)
  case Nil
  then show ?case by (cases c) simp_all
next
  case (Cons x xs)
  from Cons.prems(1) obtain y ys where b: "b = y # ys" by (cases b) simp_all
  from Cons.prems(2) b obtain z zs where c: "c = z # zs" by (cases c) simp_all
  from Cons.prems(1) have ab: "(of_char x :: nat) < of_char y \<or>
     ((of_char x :: nat) = of_char y \<and> codeUnitCompare xs ys \<le> 0)"
    unfolding b codeUnitCompare_Cons_le .
  from Cons.prems(2) have bc: "(of_char y :: nat) < of_char z \<or>
     ((of_char y :: nat) = of_char z \<and> codeUnitCompare ys zs \<le> 0)"
    unfolding b c codeUnitCompare_Cons_le .
  have "(of_char x :: nat) < of_char z \<or>
     ((of_char x :: nat) = of_char z \<and> codeUnitCompare xs zs \<le> 0)"
  proof (cases "(of_char x :: nat) < of_char y \<or> (of_char y :: nat) < of_char z")
    case True
    with ab bc show ?thesis by linarith
  next
    case False
    with ab bc have "(of_char x :: nat) = of_char y" "(of_char y :: nat) = of_char z"
        "codeUnitCompare xs ys \<le> 0" "codeUnitCompare ys zs \<le> 0"
      by simp_all
    with Cons.IH[of ys zs] show ?thesis by simp
  qed
  then show ?case unfolding c codeUnitCompare_Cons_le .
qed

lemma codeUnitCompare_consistent: "consistentCompare codeUnitCompare"
  unfolding consistentCompare_def
  by (intro conjI allI impI; (rule codeUnitCompare_total | (elim conjE, erule (1) codeUnitCompare_trans)))

lemma sample_coords:
  "m_latitude (p_merchant zipHoodie) = - 28.6434" "m_longitude (p_merchant zipHoodie) = 153.6148"
  "m_latitude (p_merchant classicHoodie) = - 28.6434" "m_longitude (p_merchant classicHoodie) = 153.6148"
  "m_latitude (p_merchant surfHoodie) = - 28.6434" "m_longitude (p_merchant surfHoodie) = 153.6148"
  by (simp_all add: zipHoodie_def classicHoodie_def surfHoodie_def byronMerchant_def)

lemma sample_stock:
  "totalStockOf zipHoodie = 3" "totalStockOf classicHoodie = 12" "totalStockOf surfHoodie = 3"
  by (simp_all add: totalStockOf_def variationQuantity_def zipHoodie_def classicHoodie_def
        surfHoodie_def)

lemma sample_names:
  "p_name zipHoodie = ''Zip Hoodie''" "p_name classicHoodie = ''Classic Black Hoodie''"
  "p_name surfHoodie = ''Surf Hoodie''"
  by (simp_all add: zipHoodie_def classicHoodie_def surfHoodie_def)

lemma sampleValidated_fields:
  "vp_query sampleValidated = ''hoodie''" "vp_lat sampleValidated = Some (- 28.6434)"
  "vp_lng sampleValidated = Some 153.6148" "vp_radius sampleValidated = 10"
  "vp_limit sampleValidated = 20" "vp_inStock sampleValidated = True"
  by (simp_all add: sampleValidated_def)

lemma oneDecimal_zero: "roundToOneDecimal sampleRuntime 0 = Some 0"
  by (simp add: sample_roundToOneDecimal Math_round_def)

lemma sample_candidates:
  assumes "userLat = - 28.6434" "userLng = 153.6148"
  shows "searchCandidate sampleRuntime sampleValidated userLat userLng 1004 zipHoodie =
     Some \<lparr>it_product = transformProduct 1004 zipHoodie (Some 0) 3, it_distance = Finite 0\<rparr>"
  "searchCandidate sampleRuntime sampleValidated userLat userLng 1004 classicHoodie =
     Some \<lparr>it_product = transformProduct 1004 classicHoodie (Some 0) 12, it_distance = Finite 0\<rparr>"
  "searchCandidate sampleRuntime sampleValidated userLat userLng 1004 surfHoodie =
     Some \<lparr>it_product = transformProduct 1004 surfHoodie (Some 0) 3, it_distance = Finite 0\<rparr>"
  unfolding assms
  by (simp_all add: searchCandidate_def sample_coords sample_stock calculateDistance_same
        oneDecimal_zero sampleValidated_fields)

lemma sample_ranked:
  assumes "userLat = - 28.6434" "userLng = 153.6148"
  shows "rankedItems sampleRuntime sampleValidated userLat userLng 1004
           [zipHoodie, classicHoodie, surfHoodie] =
     [\<lparr>it_product = transformProduct 1004 classicHoodie (Some 0) 12, it_distance = Finite 0\<rparr>,
      \<lparr>it_product = transformProduct 1004 surfHoodie (Some 0) 3, it_distance = Finite 0\<rparr>,
      \<lparr>it_product = transformProduct 1004 zipHoodie (Some 0) 3, it_distance = Finite 0\<rparr>]"
  by (simp add: rankedItems_def sample_candidates[OF assms] compareItems_def
        sampleValidated_fields transformProduct_totalStock transformProduct_name sample_names
        sampleRuntime_fields)

lemma sample_findMany:
  assumes "n = 40"
  shows "product_findMany sampleStore (buildWhereClause sampleValidated) n =
     Some [zipHoodie, classicHoodie, surfHoodie]"
  unfolding assms
  by (simp add: product_findMany_def sampleStore_def matches_zip matches_classic matches_surf)

lemma sample_search:
  "search_GET sampleRuntime sampleEnv sampleStore sampleSearch =
     (Success sampleData, sampleStore\<lparr>searchTable := [sampleLogEntry]\<rparr>)"
  by (simp add: search_GET_def Let_def sampleSearch_parse sample_findMany sample_ranked
        sampleValidated_fields sampleData_def sampleResults_def sampleLogEntry_def
        search_create_def sampleEnv_def)
     (simp add: sampleStore_def)?

lemma sample_search_fst:
  "fst (search_GET sampleRuntime sampleEnv sampleStore sampleSearch) = Success sampleData"
  by (simp add: sample_search)


lemma sampleData_location: "sm_location (sd_searchMeta sampleData) = (- 28.6434, 153.6148)"
  by (simp add: sampleData_def)

lemma sampleStore_numeric: "numericDistances sampleRuntime (- 28.6434, 153.6148) sampleStore"
  by (simp add: numericDistances_def sampleStore_def sample_coords calculateDistance_same)

section \<open>Distance, stock and order of the results\<close>




text \<open>
  C6 (as amended). Provided no merchant of the store is at a NaN distance from the
  resolved coordinate, the returned list is sorted by the distance the handler computes
  (before it is rounded for the response) ascending, ties broken by \<open>totalStock\<close>
  descending, remaining ties by name ascending (in the order of \<^verbatim>\<open>localeCompare\<close>): for
  two adjacent results \<open>p\<close>, \<open>q\<close>, the computed distance of \<open>p\<close> is at most that of
  \<open>q\<close>; if equal, \<open>p\<close> has at least the stock of \<open>q\<close>; if still equal, the name of \<open>p\<close>
  sorts before or with that of \<open>q\<close>. The list holds at most \<open>limit\<close> entries. With a
  monotone rounding the reported distances are ascending as well; the ties are not
  broken on them.
\<close>

theorem results_ranked:
  assumes cmp: "consistentCompare (localeCompare rt)"
      and ok: "fst (search_GET rt env st sp) = Success d"
      and num: "numericDistances rt (sm_location (sd_searchMeta d)) st"
      and adj: "Suc i < length (sd_products d)"
      and p: "p = sd_products d ! i" and q: "q = sd_products d ! Suc i"
  shows "number_le (computedDistance rt d p) (computedDistance rt d q) \<and>
         (computedDistance rt d p = computedDistance rt d q \<longrightarrow> pw_totalStock q \<le> pw_totalStock p) \<and>
         (computedDistance rt d p = computedDistance rt d q \<and> pw_totalStock p = pw_totalStock q \<longrightarrow>
            localeCompare rt (pw_name p) (pw_name q) \<le> 0) \<and>
         real (length (sd_products d)) \<le> pg_limit (sd_pagination d) \<and>
         (monotoneRounding rt \<and> am_distance (pw_merchant p) = Some a \<and>
            am_distance (pw_merchant q) = Some b \<longrightarrow> a \<le> b)"
proof -
  from search_GET_SuccessD[OF ok] obtain vp products where
      parse: "searchSchema_parse rt (searchParams_get sp) = Inr vp"
      and found: "product_findMany st (buildWhereClause vp) (vp_limit vp * 2) = Some products"
      and prods: "sd_products d = map it_product
              (rankedItems rt vp (fst (sm_location (sd_searchMeta d)))
                 (snd (sm_location (sd_searchMeta d))) (mapTime env) products)"
      and limit: "pg_limit (sd_pagination d) = vp_limit vp"
    by blast
  define userLat where "userLat = fst (sm_location (sd_searchMeta d))"
  define userLng where "userLng = snd (sm_location (sd_searchMeta d))"
  define items where "items = rankedItems rt vp userLat userLng (mapTime env) products"
  have prods': "sd_products d = map it_product items"
    unfolding items_def userLat_def userLng_def by (rule prods)
  have num': "numericDistances rt (userLat, userLng) st"
    unfolding userLat_def userLng_def using num by simp
  from product_findMany_SomeD[OF found] have sub: "set products \<subseteq> set (productTable st)" ..
  have len: "length items = length (sd_products d)" unfolding prods' by simp
  with adj have i: "i < length items" "Suc i < length items" by simp_all
  have mem: "items ! i \<in> set items" "items ! Suc i \<in> set items" using i by simp_all
  have pi: "p = it_product (items ! i)" and qi: "q = it_product (items ! Suc i)"
    using i unfolding p q prods' by simp_all
  have dp: "it_distance (items ! i) = computedDistance rt d p"
    unfolding pi using mem(1) unfolding items_def userLat_def userLng_def
    by (rule search_result_item(1))
  have dq: "it_distance (items ! Suc i) = computedDistance rt d q"
    unfolding qi using mem(2) unfolding items_def userLat_def userLng_def
    by (rule search_result_item(1))
  have "am_distance (pw_merchant (it_product (items ! i))) = oneDecimal rt (it_distance (items ! i))"
    using mem(1) unfolding items_def userLat_def userLng_def by (rule search_result_item(3))
  then have rp: "am_distance (pw_merchant p) = oneDecimal rt (computedDistance rt d p)"
    unfolding dp pi[symmetric] .
  have "am_distance (pw_merchant (it_product (items ! Suc i))) = oneDecimal rt (it_distance (items ! Suc i))"
    using mem(2) unfolding items_def userLat_def userLng_def by (rule search_result_item(3))
  then have rq: "am_distance (pw_merchant q) = oneDecimal rt (computedDistance rt d q)"
    unfolding dq qi[symmetric] .
  have finite: "\<exists>v. it_distance x = Finite v" if "x \<in> set items" for x
  proof -
    from that have "x \<in> set (List.map_filter (searchCandidate rt vp userLat userLng (mapTime env)) products)"
      unfolding items_def rankedItems_def by (auto dest: in_set_takeD simp: set_Array_sort)
    with num' sub show ?thesis by (rule numericDistances_candidates)
  qed
  from finite[OF mem(1)] dp obtain x where x: "computedDistance rt d p = Finite x" by auto
  from finite[OF mem(2)] dq obtain y where y: "computedDistance rt d q = Finite y" by auto
  have "sorted_wrt (\<lambda>a b. comparatorValue (compareItems rt a b) \<le> 0) items"
    unfolding items_def using cmp num' sub by (rule rankedItems_sorted)
  then have "comparatorValue (compareItems rt (items ! i) (items ! Suc i)) \<le> 0"
    by (rule sorted_wrt_nth_less) (use i in simp_all)
  then have order: "x < y \<or>
     (x = y \<and>
      (pw_totalStock q < pw_totalStock p \<or>
       (pw_totalStock p = pw_totalStock q \<and> localeCompare rt (pw_name p) (pw_name q) \<le> 0)))"
    unfolding compareItems_le_iff[OF dp[unfolded x] dq[unfolded y]] pi[symmetric] qi[symmetric] .
  have "1 \<le> vp_limit vp"
    using parse unfolding searchSchema_parse_def Let_def zDefault_def zCoerceNumber_def
    by (auto split: option.splits if_splits Option.bind_splits elim!: zNumber_min_max.elims)
  then have length: "real (length (sd_products d)) \<le> pg_limit (sd_pagination d)"
    unfolding limit len[symmetric] items_def by (rule rankedItems_length)
  from order have xy: "x \<le> y" by auto
  have reported: "a \<le> b"
    if mono: "monotoneRounding rt" and a: "am_distance (pw_merchant p) = Some a"
      and b: "am_distance (pw_merchant q) = Some b"
  proof -
    from a have a': "roundToOneDecimal rt x = Some a" unfolding rp x by simp
    from b have b': "roundToOneDecimal rt y = Some b" unfolding rq y by simp
    from mono xy a' b' show ?thesis by (rule roundToOneDecimal_mono)
  qed
  have le: "number_le (computedDistance rt d p) (computedDistance rt d q)"
    unfolding x y using xy by simp
  have stock: "pw_totalStock q \<le> pw_totalStock p" if "computedDistance rt d p = computedDistance rt d q"
    using that order unfolding x y by auto
  have name: "localeCompare rt (pw_name p) (pw_name q) \<le> 0"
    if "computedDistance rt d p = computedDistance rt d q" "pw_totalStock p = pw_totalStock q"
    using that order unfolding x y by auto
  from le stock name length reported show ?thesis by blast
qed



text \<open>The sample search, at its second and third results: same distance, same stock,
  ordered by name.\<close>

theorem results_ranked_witness:
  "consistentCompare (localeCompare sampleRuntime) \<and>
   fst (search_GET sampleRuntime sampleEnv sampleStore sampleSearch) = Success sampleData \<and>
   numericDistances sampleRuntime (sm_location (sd_searchMeta sampleData)) sampleStore \<and>
   Suc 1 < length (sd_products sampleData) \<and>
   sd_products sampleData ! 1 = transformProduct 1004 surfHoodie (Some 0) 3 \<and>
   sd_products sampleData ! Suc 1 = transformProduct 1004 zipHoodie (Some 0) 3 \<and>
   computedDistance sampleRuntime sampleData (transformProduct 1004 surfHoodie (Some 0) 3)
     = computedDistance sampleRuntime sampleData (transformProduct 1004 zipHoodie (Some 0) 3) \<and>
   pw_totalStock (transformProduct 1004 surfHoodie (Some 0) 3)
     = pw_totalStock (transformProduct 1004 zipHoodie (Some 0) 3) \<and>
   monotoneRounding sampleRuntime \<and>
   am_distance (pw_merchant (transformProduct 1004 surfHoodie (Some 0) 3)) = Some 0 \<and>
   am_distance (pw_merchant (transformProduct 1004 zipHoodie (Some 0) 3)) = Some 0 \<and>
   number_le (computedDistance sampleRuntime sampleData (transformProduct 1004 surfHoodie (Some 0) 3))
     (computedDistance sampleRuntime sampleData (transformProduct 1004 zipHoodie (Some 0) 3)) \<and>
   pw_totalStock (transformProduct 1004 zipHoodie (Some 0) 3)
     \<le> pw_totalStock (transformProduct 1004 surfHoodie (Some 0) 3) \<and>
   localeCompare sampleRuntime (pw_name (transformProduct 1004 surfHoodie (Some 0) 3))
     (pw_name (transformProduct 1004 zipHoodie (Some 0) 3)) \<le> 0 \<and>
   real (length (sd_products sampleData)) \<le> pg_limit (sd_pagination sampleData) \<and>
   (0::real) \<le> 0"
proof -
  have cmp: "consistentCompare (localeCompare sampleRuntime)"
    by (simp add: sampleRuntime_fields codeUnitCompare_consistent)
  have num: "numericDistances sampleRuntime (sm_location (sd_searchMeta sampleData)) sampleStore"
    unfolding sampleData_location by (rule sampleStore_numeric)
  have adj: "Suc 1 < length (sd_products sampleData)"
    by (simp add: sampleData_def sampleResults_def)
  have p: "transformProduct 1004 surfHoodie (Some 0) 3 = sd_products sampleData ! 1"
    and q: "transformProduct 1004 zipHoodie (Some 0) 3 = sd_products sampleData ! Suc 1"
    by (simp_all add: sampleData_def sampleResults_def)
  have d: "computedDistance sampleRuntime sampleData (transformProduct 1004 surfHoodie (Some 0) 3)
     = computedDistance sampleRuntime sampleData (transformProduct 1004 zipHoodie (Some 0) 3)"
    by (simp add: computedDistance_def transformProduct_fields sample_coords)
  have s: "pw_totalStock (transformProduct 1004 surfHoodie (Some 0) 3)
     = pw_totalStock (transformProduct 1004 zipHoodie (Some 0) 3)"
    by (simp add: transformProduct_totalStock)
  have ra: "am_distance (pw_merchant (transformProduct 1004 surfHoodie (Some 0) 3)) = Some 0"
    and rb: "am_distance (pw_merchant (transformProduct 1004 zipHoodie (Some 0) 3)) = Some 0"
    by (simp_all add: transformProduct_fields)
  note w = results_ranked[OF cmp sample_search_fst num adj p q, of 0 0]
  from w have c1: "number_le
      (computedDistance sampleRuntime sampleData (transformProduct 1004 surfHoodie (Some 0) 3))
      (computedDistance sampleRuntime sampleData (transformProduct 1004 zipHoodie (Some 0) 3))"
    by (rule conjunct1)
  from w d have c2: "pw_totalStock (transformProduct 1004 zipHoodie (Some 0) 3)
     \<le> pw_totalStock (transformProduct 1004 surfHoodie (Some 0) 3)"
    by blast
  from w d s have c3: "localeCompare sampleRuntime (pw_name (transformProduct 1004 surfHoodie (Some 0) 3))
     (pw_name (transformProduct 1004 zipHoodie (Some 0) 3)) \<le> 0"
    by blast
  from w have c4: "real (length (sd_products sampleData)) \<le> pg_limit (sd_pagination sampleData)"
    by blast
  from w sample_monotoneRounding ra rb have c5: "(0::real) \<le> 0" by blast
  from cmp sample_search_fst num adj p[symmetric] q[symmetric] d s sample_monotoneRounding ra rb
       c1 c2 c3 c4 c5
  show ?thesis by (intro conjI)
qed

section \<open>Failure of the analytics log\<close>

lemma search_GET_unwritable:
  assumes "DATABASE_URL env = Some url" "url \<noteq> []"
      and "searchSchema_parse rt (searchParams_get sp) = Inr vp"
      and "product_findMany st (buildWhereClause vp) (vp_limit vp * 2) = Some products"
      and "\<not> writable st"
  shows "search_GET rt env st sp = (Failure 500 SEARCH_ERROR [], st)"
  by (simp add: search_GET_def Let_def search_create_def assms)

lemma product_findMany_writable:
  "product_findMany (st\<lparr>writable := b\<rparr>) w n = product_findMany st w n"
  by (simp add: product_findMany_def)

lemma sampleEnv_url: "DATABASE_URL sampleEnv = Some ''postgresql://localhost/inventory''"
  by (simp add: sampleEnv_def)

lemma sample_search_unwritable:
  "search_GET sampleRuntime sampleEnv (sampleStore\<lparr>writable := False\<rparr>) sampleSearch =
     (Failure 500 SEARCH_ERROR [], sampleStore\<lparr>writable := False\<rparr>)"
proof (rule search_GET_unwritable[OF sampleEnv_url _ sampleSearch_parse])
  show "product_findMany (sampleStore\<lparr>writable := False\<rparr>) (buildWhereClause sampleValidated)
          (vp_limit sampleValidated * 2) = Some [zipHoodie, classicHoodie, surfHoodie]"
    unfolding product_findMany_writable by (rule sample_findMany) (simp add: sampleValidated_fields)
qed simp_all

text \<open>
  C1 (as amended). If the analytics log write fails after the search results have been
  computed, the search returns the \<open>SEARCH_ERROR\<close> response (HTTP 500) and not its
  results: the write is awaited inside the handler's \<^verbatim>\<open>try\<close> block and nothing absorbs its
  failure.
\<close>

theorem log_failure_fails_search:
  assumes "DATABASE_URL env = Some url" and "url \<noteq> []"
      and "searchSchema_parse rt (searchParams_get sp) = Inr vp"
      and "product_findMany st (buildWhereClause vp) (vp_limit vp * 2) = Some products"
      and "\<not> writable st"
  shows "search_GET rt env st sp = (Failure 500 SEARCH_ERROR [], st)"
  using assms by (rule search_GET_unwritable)

text \<open>The sample search over the sample store with a failing log write.\<close>

theorem log_failure_fails_search_witness:
  "DATABASE_URL sampleEnv = Some ''postgresql://localhost/inventory'' \<and>
   searchSchema_parse sampleRuntime (searchParams_get sampleSearch) = Inr sampleValidated \<and>
   product_findMany (sampleStore\<lparr>writable := False\<rparr>) (buildWhereClause sampleValidated)
      (vp_limit sampleValidated * 2) = Some [zipHoodie, classicHoodie, surfHoodie] \<and>
   search_GET sampleRuntime sampleEnv (sampleStore\<lparr>writable := False\<rparr>) sampleSearch =
     (Failure 500 SEARCH_ERROR [], sampleStore\<lparr>writable := False\<rparr>)"
proof -
  have url: "''postgresql://localhost/inventory'' \<noteq> []" by simp
  have found: "product_findMany (sampleStore\<lparr>writable := False\<rparr>) (buildWhereClause sampleValidated)
          (vp_limit sampleValidated * 2) = Some [zipHoodie, classicHoodie, surfHoodie]"
    unfolding product_findMany_writable by (rule sample_findMany) (simp add: sampleValidated_fields)
  have unwritable: "\<not> writable (sampleStore\<lparr>writable := False\<rparr>)" by simp
  from log_failure_fails_search[OF sampleEnv_url url sampleSearch_parse found unwritable]
       sampleEnv_url sampleSearch_parse found
  show ?thesis by blast
qed

text \<open>
  C1 as the specification states it fails: the same request over the same catalog returns its three
  results when the log write goes through, and an error response when it does not.
\<close>

theorem log_failure_absorbed_counterexample:
  "fst (search_GET sampleRuntime sampleEnv sampleStore sampleSearch) = Success sampleData \<and>
   fst (search_GET sampleRuntime sampleEnv (sampleStore\<lparr>writable := False\<rparr>) sampleSearch) =
     Failure 500 SEARCH_ERROR []"
  by (simp add: sample_search sample_search_unwritable)

section \<open>Omitted parameters\<close>

text \<open>An omitted \<open>radius\<close>, \<open>limit\<close> or \<open>category\<close> fails validation, whatever the runtime
  and the other parameters.\<close>

lemma searchSchema_parse_omitted:
  assumes "sp ''radius'' = None \<or> sp ''limit'' = None \<or> sp ''category'' = None"
  shows "\<exists>fields. searchSchema_parse rt (searchParams_get sp) = Inl fields"
proof -
  have "zDefault (zCoerceNumber rt 1 50) 10 (searchParams_get sp ''radius'') = None \<or>
        zDefault (zCoerceNumber rt 1 100) 20 (searchParams_get sp ''limit'') = None \<or>
        zOptional zString (searchParams_get sp ''category'') = None"
    using assms by (auto simp: searchParams_get_def zDefault_def zOptional_def zCoerceNumber_def)
  then show ?thesis
    unfolding searchSchema_parse_def Let_def by (auto split: option.splits Option.bind_splits)
qed

text \<open>Omitted coordinates are coerced to 0 and the fallback is never used.\<close>

lemma searchSchema_parse_omitted_coordinates:
  assumes "searchSchema_parse rt (searchParams_get sp) = Inr vp"
  shows "sp ''lat'' = None \<Longrightarrow> vp_lat vp = Some 0" and "sp ''lng'' = None \<Longrightarrow> vp_lng vp = Some 0"
  using assms unfolding searchSchema_parse_def Let_def
  by (auto simp: searchParams_get_def zOptional_def zCoerceNumber_def
           split: option.splits Option.bind_splits)

lemma search_GET_omitted_coordinates:
  assumes "sp ''lat'' = None" "sp ''lng'' = None"
      and "fst (search_GET rt env st sp) = Success d"
  shows "sm_location (sd_searchMeta d) = (0, 0)"
proof -
  from search_GET_SuccessD[OF assms(3)] obtain vp where
      parse: "searchSchema_parse rt (searchParams_get sp) = Inr vp"
      and loc: "sm_location (sd_searchMeta d) =
              ((case vp_lat vp of Some x \<Rightarrow> x | None \<Rightarrow> fst BYRON_BAY_COORDS),
               (case vp_lng vp of Some x \<Rightarrow> x | None \<Rightarrow> snd BYRON_BAY_COORDS))"
    by blast
  from searchSchema_parse_omitted_coordinates[OF parse] assms(1,2) loc show ?thesis by simp
qed

lemma search_GET_SuccessI:
  assumes "DATABASE_URL env = Some url" "url \<noteq> []"
      and "searchSchema_parse rt (searchParams_get sp) = Inr vp"
      and "product_findMany st (buildWhereClause vp) (vp_limit vp * 2) = Some products"
      and "writable st"
  shows "\<exists>d. fst (search_GET rt env st sp) = Success d"
  by (simp add: search_GET_def Let_def search_create_def assms)

lemma noCoordinatesSearch_parse:
  "searchSchema_parse sampleRuntime (searchParams_get noCoordinatesSearch) =
     Inr (sampleValidated\<lparr>vp_lat := Some 0, vp_lng := Some 0\<rparr>)"
  by (simp add: searchSchema_parse_def searchParams_get_def noCoordinatesSearch_def sampleValidated_def
      zString_min_max_def zOptional_def zDefault_def zCoerceNumber_def zCoerceBoolean_def
      sampleRuntime_def decimalLiteral_def sampleNumbers_def)

lemma buildWhereClause_coordinates:
  "buildWhereClause (vp\<lparr>vp_lat := a, vp_lng := b\<rparr>) = buildWhereClause vp"
  by (simp add: buildWhereClause_def)

text \<open>
  C2, at a request that omits \<open>lat\<close> and \<open>lng\<close> and passes validation: the resolved
  coordinate in \<open>searchMeta.location\<close> is (0, 0), not the fallback coordinate.
\<close>

theorem omitted_coordinates_resolve_to_origin:
  "map_option (sm_location \<circ> sd_searchMeta)
     (payload (fst (search_GET sampleRuntime sampleEnv sampleStore noCoordinatesSearch))) = Some (0, 0) \<and>
   BYRON_BAY_COORDS = (- 28.6434, 153.6148)"
proof -
  have found: "product_findMany sampleStore
        (buildWhereClause (sampleValidated\<lparr>vp_lat := Some 0, vp_lng := Some 0\<rparr>))
        (vp_limit (sampleValidated\<lparr>vp_lat := Some 0, vp_lng := Some 0\<rparr>) * 2) =
      Some [zipHoodie, classicHoodie, surfHoodie]"
    unfolding buildWhereClause_coordinates by (rule sample_findMany) (simp add: sampleValidated_fields)
  have "writable sampleStore" by (simp add: sampleStore_def)
  from search_GET_SuccessI[OF sampleEnv_url _ noCoordinatesSearch_parse found this]
  obtain d where d: "fst (search_GET sampleRuntime sampleEnv sampleStore noCoordinatesSearch) = Success d"
    by auto
  have "noCoordinatesSearch ''lat'' = None" "noCoordinatesSearch ''lng'' = None"
    by (simp_all add: noCoordinatesSearch_def)
  from search_GET_omitted_coordinates[OF this d] d show ?thesis
    by (simp add: BYRON_BAY_COORDS_def)
qed

text \<open>
  C3, at a request that supplies only a valid query: validation fails on \<open>radius\<close>,
  \<open>limit\<close> and \<open>category\<close> and the response is \<open>INVALID_PARAMS\<close> (HTTP 400); no default
  applies.
\<close>

theorem query_only_search_is_rejected:
  "search_GET sampleRuntime sampleEnv sampleStore queryOnlySearch =
     (Failure 400 INVALID_PARAMS [''radius'', ''limit'', ''category''], sampleStore)"
  by (simp add: search_GET_def searchSchema_parse_def searchParams_get_def queryOnlySearch_def
      zString_min_max_def zOptional_def zDefault_def zCoerceNumber_def zCoerceBoolean_def
      fieldError_def sampleEnv_def)

section \<open>Suggestions\<close>

lemma searchParams_get_not_Undefined: "searchParams_get sp name \<noteq> Undefined"
  by (simp add: searchParams_get_def split: option.splits)

lemma orEmptyString_get:
  "orEmptyString (searchParams_get sp name) = Str (case sp name of None \<Rightarrow> [] | Some s \<Rightarrow> s)"
  by (simp add: searchParams_get_def split: option.splits)

lemma suggestions_GET_valid:
  assumes "Number rt (searchParams_get sp ''limit'') = Finite N" "1 \<le> N" "N \<le> 10"
      and "q = (case sp ''query'' of None \<Rightarrow> [] | Some s \<Rightarrow> s)" "length q \<le> 50"
  shows "suggestions_GET rt sp = Success (take (nat \<lfloor>N\<rfloor>) (generateSearchSuggestions q))"
  using assms
  by (simp add: suggestions_GET_def suggestionsSchema_parse_def Let_def orEmptyString_get
        zString_min_max_def zDefault_def zCoerceNumber_def searchParams_get_not_Undefined)

lemma generateSearchSuggestions_length: "length (generateSearchSuggestions q) \<le> 5"
  by (simp add: generateSearchSuggestions_def Let_def)

lemma generateSearchSuggestions_subset: "set (generateSearchSuggestions q) \<subseteq> set suggestions"
  by (auto simp: generateSearchSuggestions_def Let_def dest: in_set_takeD)

lemma generateSearchSuggestions_match:
  assumes "q \<noteq> []" "s \<in> set (generateSearchSuggestions q)"
  shows "String_includes (toLowerCase s) (toLowerCase q)"
  using assms by (auto simp: generateSearchSuggestions_def Let_def dest: in_set_takeD)

text \<open>
  C7 (as amended). For every partial query string of at most 50 characters and every
  requested bound \<open>N\<close> in [1, 10], the suggestions route succeeds and returns at most \<open>N\<close>
  and at most 5 strings of the fixed vocabulary, each containing the partial query as a
  case-insensitive substring when the query is non-empty; when the partial query is
  empty it returns the first \<open>min(\<lfloor>N\<rfloor>, 5)\<close> vocabulary entries.
\<close>

theorem suggestions_bounded:
  assumes "Number rt (searchParams_get sp ''limit'') = Finite N" and "1 \<le> N" and "N \<le> 10"
      and "q = (case sp ''query'' of None \<Rightarrow> [] | Some s \<Rightarrow> s)" and "length q \<le> 50"
      and "xs = take (nat \<lfloor>N\<rfloor>) (generateSearchSuggestions q)"
  shows "suggestions_GET rt sp = Success xs \<and>
         real (length xs) \<le> N \<and> length xs \<le> 5 \<and> set xs \<subseteq> set suggestions \<and>
         (q \<noteq> [] \<longrightarrow> (\<forall>s \<in> set xs. String_includes (toLowerCase s) (toLowerCase q))) \<and>
         (q = [] \<longrightarrow> xs = take (min (nat \<lfloor>N\<rfloor>) 5) suggestions)"
proof -
  have ok: "suggestions_GET rt sp = Success xs"
    unfolding assms(6) using assms(1-5) by (rule suggestions_GET_valid)
  have "length xs \<le> nat \<lfloor>N\<rfloor>" unfolding assms(6) by simp
  then have "real (length xs) \<le> real (nat \<lfloor>N\<rfloor>)" by (rule iffD2[OF of_nat_le_iff])
  also have "\<dots> = of_int \<lfloor>N\<rfloor>" using assms(2) by simp
  also have "\<dots> \<le> N" by (rule of_int_floor_le)
  finally have lenN: "real (length xs) \<le> N" .
  have len5: "length xs \<le> 5"
    unfolding assms(6) using generateSearchSuggestions_length[of q] by simp
  have sub: "set xs \<subseteq> set suggestions"
    unfolding assms(6) using generateSearchSuggestions_subset[of q] by (auto dest: in_set_takeD)
  have match: "q \<noteq> [] \<longrightarrow> (\<forall>s \<in> set xs. String_includes (toLowerCase s) (toLowerCase q))"
    unfolding assms(6) by (auto dest: in_set_takeD generateSearchSuggestions_match)
  have empty: "q = [] \<longrightarrow> xs = take (min (nat \<lfloor>N\<rfloor>) 5) suggestions"
    unfolding assms(6) by (simp add: generateSearchSuggestions_def)
  from ok lenN len5 sub match empty show ?thesis by blast
qed

lemma sampleRuntime_Number:
  "StringToNumber sampleRuntime ''5'' = Finite 5" "StringToNumber sampleRuntime ''10'' = Finite 10"
  by (simp_all add: sampleRuntime_def decimalLiteral_def sampleNumbers_def)

lemma generateSearchSuggestions_SH:
  "generateSearchSuggestions ''SH'' = [''t-shirt'', ''shirt'', ''shoes'']"
  by (simp add: generateSearchSuggestions_def suggestions_def toLowerCase_def toLowerChar_def)

lemma suggestions_lengths: "length (take 5 suggestions) = 5" "length (take 10 suggestions) = 10"
  by (simp_all add: suggestions_def)

lemma emptyQuerySuggest_fields:
  "Number sampleRuntime (searchParams_get emptyQuerySuggest ''limit'') = Finite 10"
  "[] = (case emptyQuerySuggest ''query'' of None \<Rightarrow> [] | Some s \<Rightarrow> s)"
  by (simp_all add: searchParams_get_def emptyQuerySuggest_def sampleRuntime_Number)

lemma shSuggest_fields:
  "Number sampleRuntime (searchParams_get shSuggest ''limit'') = Finite 5"
  "''SH'' = (case shSuggest ''query'' of None \<Rightarrow> [] | Some s \<Rightarrow> s)"
  by (simp_all add: searchParams_get_def shSuggest_def sampleRuntime_Number)

lemma emptyQuery_take:
  "take 5 suggestions = take (nat \<lfloor>10::real\<rfloor>) (generateSearchSuggestions [])"
  by (simp add: generateSearchSuggestions_def)

text \<open>The query \<open>SH\<close> with bound 5, and the empty query with bound 10.\<close>

theorem suggestions_bounded_witness:
  "suggestions_GET sampleRuntime shSuggest = Success [''t-shirt'', ''shirt'', ''shoes''] \<and>
   String_includes (toLowerCase ''shirt'') (toLowerCase ''SH'') \<and>
   suggestions_GET sampleRuntime emptyQuerySuggest = Success (take 5 suggestions) \<and>
   take 5 suggestions = take (min (nat \<lfloor>10::real\<rfloor>) 5) suggestions"
proof -
  have xs5: "[''t-shirt'', ''shirt'', ''shoes''] = take (nat \<lfloor>5::real\<rfloor>) (generateSearchSuggestions ''SH'')"
    by (simp add: generateSearchSuggestions_SH)
  have b5: "(1::real) \<le> 5" "(5::real) \<le> 10" "length ''SH'' \<le> 50" by simp_all
  have b10: "(1::real) \<le> 10" "(10::real) \<le> 10" "length ([]::string) \<le> 50" by simp_all
  note w5 = suggestions_bounded[OF shSuggest_fields(1) b5(1,2) shSuggest_fields(2) b5(3) xs5]
  note w10 = suggestions_bounded[OF emptyQuerySuggest_fields(1) b10(1,2)
                emptyQuerySuggest_fields(2) b10(3) emptyQuery_take]
  have r5: "suggestions_GET sampleRuntime shSuggest = Success [''t-shirt'', ''shirt'', ''shoes'']"
    using w5 by (rule conjunct1)
  have "\<forall>s \<in> set [''t-shirt'', ''shirt'', ''shoes'']. String_includes (toLowerCase s) (toLowerCase ''SH'')"
    using w5 by blast
  then have m5: "String_includes (toLowerCase ''shirt'') (toLowerCase ''SH'')"
    by (rule bspec) simp
  have r10: "suggestions_GET sampleRuntime emptyQuerySuggest = Success (take 5 suggestions)"
    using w10 by (rule conjunct1)
  have e10: "take 5 suggestions = take (min (nat \<lfloor>10::real\<rfloor>) 5) suggestions"
    using w10 by blast
  from r5 m5 r10 e10 show ?thesis by (intro conjI)
qed

text \<open>
  C7 as the specification states it fails at the empty query with bound 10: the route returns the first
  five vocabulary entries, not the first ten.
\<close>

theorem suggestions_first_N_counterexample:
  "suggestions_GET sampleRuntime emptyQuerySuggest = Success (take 5 suggestions) \<and>
   length (take 5 suggestions) = 5 \<and> length (take 10 suggestions) = 10"
proof -
  have b10: "(1::real) \<le> 10" "(10::real) \<le> 10" "length ([]::string) \<le> 50" by simp_all
  have "suggestions_GET sampleRuntime emptyQuerySuggest =
          Success (take (nat \<lfloor>10::real\<rfloor>) (generateSearchSuggestions []))"
    by (rule suggestions_GET_valid[OF emptyQuerySuggest_fields(1) b10(1,2)
                emptyQuerySuggest_fields(2) b10(3)])
  then have "suggestions_GET sampleRuntime emptyQuerySuggest = Success (take 5 suggestions)"
    unfolding emptyQuery_take[symmetric] .
  with suggestions_lengths show ?thesis by (intro conjI)
qed

section \<open>Product detail lookup\<close>

lemma product_GET_found:
  assumes "readable st" "find (\<lambda>p. p_id p = productId) (productTable st) = Some product"
  shows "\<exists>distanceField. product_GET rt now st productId sp =
           Success (transformProduct now product distanceField (totalStockOf product))"
  using assms by (auto simp: product_GET_def product_findUnique_def Let_def)

lemma product_GET_not_found_iff:
  assumes "readable st"
  shows "product_GET rt now st productId sp = Failure 404 PRODUCT_NOT_FOUND [] \<longleftrightarrow>
         productId \<notin> p_id ` set (productTable st)"
proof (cases "find (\<lambda>p. p_id p = productId) (productTable st)")
  case None
  then have "productId \<notin> p_id ` set (productTable st)" by (auto simp: find_None_iff)
  with None assms show ?thesis by (simp add: product_GET_def product_findUnique_def Let_def)
next
  case (Some product)
  then have "productId \<in> p_id ` set (productTable st)"
    by (auto simp: find_Some_iff intro!: image_eqI[where x = product])
  with Some assms show ?thesis by (simp add: product_GET_def product_findUnique_def Let_def)
qed

lemma find_withActiveFlags:
  "find (\<lambda>p. p_id p = productId) (map (withActiveFlags a b) rows) =
     map_option (withActiveFlags a b) (find (\<lambda>p. p_id p = productId) rows)"
  by (induction rows) (simp_all add: withActiveFlags_def)

lemma transformProduct_withActiveFlags:
  "transformProduct now (withActiveFlags a b p) d t = transformProduct now p d t"
  by (simp add: transformProduct_def withActiveFlags_def)

lemma totalStockOf_withActiveFlags: "totalStockOf (withActiveFlags a b p) = totalStockOf p"
  by (simp add: totalStockOf_def withActiveFlags_def)

lemma coordinates_withActiveFlags:
  "m_latitude (p_merchant (withActiveFlags a b p)) = m_latitude (p_merchant p)"
  "m_longitude (p_merchant (withActiveFlags a b p)) = m_longitude (p_merchant p)"
  by (simp_all add: withActiveFlags_def)

lemma queryDistance_withActiveFlags:
  "queryDistance rt lat lng (withActiveFlags a b p) = queryDistance rt lat lng p"
  by (cases "(rt, lat, lng, p)" rule: queryDistance.cases) (simp_all add: coordinates_withActiveFlags)

lemma product_GET_withActiveFlags:
  "product_GET rt now (st\<lparr>productTable := map (withActiveFlags a b) (productTable st)\<rparr>) productId sp =
     product_GET rt now st productId sp"
  by (cases "find (\<lambda>p. p_id p = productId) (productTable st)")
     (simp_all add: product_GET_def product_findUnique_def Let_def find_withActiveFlags
        transformProduct_withActiveFlags totalStockOf_withActiveFlags queryDistance_withActiveFlags)

text \<open>
  C10. The product detail lookup applies no active-flag check: when the store answers,
  it returns \<open>PRODUCT_NOT_FOUND\<close> exactly when no product row has the given identity, and
  otherwise returns the product of the row found; the response does not change when the
  active flags of the rows and of their merchants are set to any values.
\<close>

theorem product_lookup_ignores_active_flags:
  assumes "readable st"
  shows "(product_GET rt now st productId sp = Failure 404 PRODUCT_NOT_FOUND [] \<longleftrightarrow>
            productId \<notin> p_id ` set (productTable st)) \<and>
         (find (\<lambda>p. p_id p = productId) (productTable st) = Some product \<longrightarrow>
            (\<exists>distanceField. product_GET rt now st productId sp =
               Success (transformProduct now product distanceField (totalStockOf product)))) \<and>
         product_GET rt now (st\<lparr>productTable := map (withActiveFlags a b) (productTable st)\<rparr>)
            productId sp = product_GET rt now st productId sp"
proof (intro conjI impI)
  show "product_GET rt now st productId sp = Failure 404 PRODUCT_NOT_FOUND [] \<longleftrightarrow>
            productId \<notin> p_id ` set (productTable st)"
    by (rule product_GET_not_found_iff[OF assms])
next
  assume "find (\<lambda>p. p_id p = productId) (productTable st) = Some product"
  with assms show "\<exists>distanceField. product_GET rt now st productId sp =
               Success (transformProduct now product distanceField (totalStockOf product))"
    by (rule product_GET_found)
next
  show "product_GET rt now (st\<lparr>productTable := map (withActiveFlags a b) (productTable st)\<rparr>)
            productId sp = product_GET rt now st productId sp"
    by (rule product_GET_withActiveFlags)
qed

lemma archiveStore_readable: "readable archiveStore"
  by (simp add: archiveStore_def sampleStore_def)

lemma archiveStore_find:
  "find (\<lambda>p. p_id p = ''p9'') (productTable archiveStore) = Some retiredProduct"
  by (simp add: archiveStore_def zipHoodie_def retiredProduct_def)

lemma archiveStore_ids: "p_id ` set (productTable archiveStore) = {''p2'', ''p9''}"
  by (simp add: archiveStore_def zipHoodie_def retiredProduct_def)

lemma retiredProduct_lookup:
  "product_GET sampleRuntime 1004 archiveStore ''p9'' Map.empty =
     Success (transformProduct 1004 retiredProduct None 12)"
  by (simp add: product_GET_def product_findUnique_def archiveStore_readable archiveStore_find
        searchParams_get_def totalStockOf_def variationQuantity_def retiredProduct_def classicHoodie_def)

text \<open>An inactive product of an inactive merchant is returned; an unknown identity is
  not found.\<close>

theorem product_lookup_ignores_active_flags_witness:
  "readable archiveStore \<and>
   find (\<lambda>p. p_id p = ''p9'') (productTable archiveStore) = Some retiredProduct \<and>
   p_isActive retiredProduct = False \<and> m_isActive (p_merchant retiredProduct) = False \<and>
   product_GET sampleRuntime 1004 archiveStore ''p9'' Map.empty =
     Success (transformProduct 1004 retiredProduct None 12) \<and>
   product_GET sampleRuntime 1004 archiveStore ''p1'' Map.empty = Failure 404 PRODUCT_NOT_FOUND []"
proof -
  note w = product_lookup_ignores_active_flags[OF archiveStore_readable,
              of sampleRuntime 1004 "''p1''" Map.empty retiredProduct True True]
  have "''p1'' \<notin> p_id ` set (productTable archiveStore)"
    unfolding archiveStore_ids by simp
  with w have nf: "product_GET sampleRuntime 1004 archiveStore ''p1'' Map.empty =
      Failure 404 PRODUCT_NOT_FOUND []"
    by blast
  have flags: "p_isActive retiredProduct = False" "m_isActive (p_merchant retiredProduct) = False"
    by (simp_all add: retiredProduct_def)
  from archiveStore_readable archiveStore_find flags retiredProduct_lookup nf
  show ?thesis by (intro conjI)
qed

lemma classicHoodie_find:
  "find (\<lambda>p. p_id p = ''p1'') (productTable sampleStore) = Some classicHoodie"
  by (simp add: sampleStore_def zipHoodie_def classicHoodie_def)

lemma sampleRuntime_parseFloat:
  "parseFloat sampleRuntime ''-28.6434'' = Finite (- 28.6434)"
  "parseFloat sampleRuntime ''153.6148'' = Finite 153.6148"
  by (simp_all add: sampleRuntime_def decimalLiteral_def sampleNumbers_def)

text \<open>
  C8, at a lookup whose query coordinate is the merchant's own coordinate: the distance is
  0, which the handler's truthiness test treats like a missing distance, so the response
  carries no distance; the search path reports the distance 0 for the same product and
  coordinate.
\<close>

theorem product_lookup_drops_zero_distance:
  "product_GET sampleRuntime 1004 sampleStore ''p1'' atMerchantLookup =
     Success (transformProduct 1004 classicHoodie None 12) \<and>
   fst (search_GET sampleRuntime sampleEnv sampleStore sampleSearch) = Success sampleData \<and>
   hd (sd_products sampleData) = transformProduct 1004 classicHoodie (Some 0) 12"
proof -
  have "product_GET sampleRuntime 1004 sampleStore ''p1'' atMerchantLookup =
     Success (transformProduct 1004 classicHoodie None 12)"
    by (simp add: product_GET_def product_findUnique_def classicHoodie_find searchParams_get_def
          atMerchantLookup_def sampleRuntime_parseFloat sample_coords sample_stock
          calculateDistance_same)
       (simp add: sampleStore_def)?
  moreover have "hd (sd_products sampleData) = transformProduct 1004 classicHoodie (Some 0) 12"
    by (simp add: sampleData_def sampleResults_def)
  ultimately show ?thesis using sample_search_fst by (intro conjI)
qed

section \<open>Searches with merchants to the north of the query coordinate\<close>

lemma north_coords:
  "m_latitude (p_merchant northHoodie) = - 28.6338" "m_longitude (p_merchant northHoodie) = 153.6148"
  "m_latitude (p_merchant nearHoodie) = - 28.6346" "m_longitude (p_merchant nearHoodie) = 153.6148"
  "m_latitude (p_merchant farHoodie) = - 28.6342" "m_longitude (p_merchant farHoodie) = 153.6148"
  by (simp_all add: northHoodie_def northMerchant_def nearHoodie_def farHoodie_def byronMerchant_def)

lemma north_stock:
  "totalStockOf northHoodie = 4" "totalStockOf nearHoodie = 1" "totalStockOf farHoodie = 5"
  by (simp_all add: totalStockOf_def variationQuantity_def northHoodie_def nearHoodie_def
        farHoodie_def)

lemma north_distance:
  assumes "userLat = - 28.6434" "userLng = 153.6148"
  shows "calculateDistance sampleRuntime userLat userLng (m_latitude (p_merchant northHoodie))
           (m_longitude (p_merchant northHoodie)) = Finite (6371 * (96 / 10000 * (Math_PI / 180)))"
    and "calculateDistance sampleRuntime userLat userLng (m_latitude (p_merchant nearHoodie))
           (m_longitude (p_merchant nearHoodie)) = Finite (6371 * (88 / 10000 * (Math_PI / 180)))"
    and "calculateDistance sampleRuntime userLat userLng (m_latitude (p_merchant farHoodie))
           (m_longitude (p_merchant farHoodie)) = Finite (6371 * (92 / 10000 * (Math_PI / 180)))"
  unfolding north_coords assms
  by (subst sample_distance_meridian; simp)+

text \<open>The three distances are about 1.0675 km, 0.9785 km and 1.0230 km.\<close>

lemma north_distance_bounds:
  "1067 / 1000 < 6371 * (96 / 10000 * (Math_PI / 180))"
  "6371 * (96 / 10000 * (Math_PI / 180)) < 1068 / 1000"
  "978 / 1000 < 6371 * (88 / 10000 * (Math_PI / 180))"
  "6371 * (88 / 10000 * (Math_PI / 180)) < 979 / 1000"
  "1022 / 1000 < 6371 * (92 / 10000 * (Math_PI / 180))"
  "6371 * (92 / 10000 * (Math_PI / 180)) < 1023 / 1000"
  by (simp_all add: Math_PI_def)

lemma north_distance_rounded:
  "roundToOneDecimal sampleRuntime (6371 * (96 / 10000 * (Math_PI / 180))) = Some (11 / 10)"
  "roundToOneDecimal sampleRuntime (6371 * (88 / 10000 * (Math_PI / 180))) = Some 1"
  "roundToOneDecimal sampleRuntime (6371 * (92 / 10000 * (Math_PI / 180))) = Some 1"
proof -
  have "\<lfloor>6371 * (96 / 10000 * (Math_PI / 180)) * 10 + 1 / 2\<rfloor> = 11"
    using north_distance_bounds(1,2) by (intro floor_unique) simp_all
  then show "roundToOneDecimal sampleRuntime (6371 * (96 / 10000 * (Math_PI / 180))) = Some (11 / 10)"
    unfolding sample_roundToOneDecimal Math_round_def by simp
  have "\<lfloor>6371 * (88 / 10000 * (Math_PI / 180)) * 10 + 1 / 2\<rfloor> = 10"
    using north_distance_bounds(3,4) by (intro floor_unique) simp_all
  then show "roundToOneDecimal sampleRuntime (6371 * (88 / 10000 * (Math_PI / 180))) = Some 1"
    unfolding sample_roundToOneDecimal Math_round_def by simp
  have "\<lfloor>6371 * (92 / 10000 * (Math_PI / 180)) * 10 + 1 / 2\<rfloor> = 10"
    using north_distance_bounds(5,6) by (intro floor_unique) simp_all
  then show "roundToOneDecimal sampleRuntime (6371 * (92 / 10000 * (Math_PI / 180))) = Some 1"
    unfolding sample_roundToOneDecimal Math_round_def by simp
qed

subsection \<open>A search whose radius is not a multiple of 0.1\<close>








subsection \<open>Two merchants whose distances round to the same value\<close>

lemma twoStores_findMany:
  assumes "n = 40"
  shows "product_findMany twoStoresStore (buildWhereClause sampleValidated) n =
           Some [farHoodie, nearHoodie]"
  unfolding assms
  by (simp add: product_findMany_def twoStoresStore_def matchesWhere_def buildWhereClause_def
        sampleValidated_def nearHoodie_def farHoodie_def byronMerchant_def
        containsInsensitive_def orUndefined_string_def toLowerCase_def toLowerChar_def)

lemma twoStores_candidates:
  assumes "userLat = - 28.6434" "userLng = 153.6148"
  shows "searchCandidate sampleRuntime sampleValidated userLat userLng 1004 nearHoodie =
     Some \<lparr>it_product = transformProduct 1004 nearHoodie (Some 1) 1,
           it_distance = Finite (6371 * (88 / 10000 * (Math_PI / 180)))\<rparr>"
    and "searchCandidate sampleRuntime sampleValidated userLat userLng 1004 farHoodie =
     Some \<lparr>it_product = transformProduct 1004 farHoodie (Some 1) 5,
           it_distance = Finite (6371 * (92 / 10000 * (Math_PI / 180)))\<rparr>"
  unfolding searchCandidate_def Let_def north_distance[OF assms] oneDecimal.simps
    north_distance_rounded number_greater.simps sampleValidated_fields north_stock
  using north_distance_bounds(4,6) by simp_all

lemma twoStores_ranked:
  assumes "userLat = - 28.6434" "userLng = 153.6148"
  shows "rankedItems sampleRuntime sampleValidated userLat userLng 1004 [farHoodie, nearHoodie] =
     [\<lparr>it_product = transformProduct 1004 nearHoodie (Some 1) 1,
       it_distance = Finite (6371 * (88 / 10000 * (Math_PI / 180)))\<rparr>,
      \<lparr>it_product = transformProduct 1004 farHoodie (Some 1) 5,
       it_distance = Finite (6371 * (92 / 10000 * (Math_PI / 180)))\<rparr>]"
  by (simp add: rankedItems_def twoStores_candidates[OF assms] compareItems_def
        sampleValidated_fields Math_PI_def)

lemma twoStores_search:
  "fst (search_GET sampleRuntime sampleEnv twoStoresStore sampleSearch) =
     Success \<lparr>sd_products = [transformProduct 1004 nearHoodie (Some 1) 1,
                             transformProduct 1004 farHoodie (Some 1) 5],
              sd_pagination = \<lparr>pg_total = 2, pg_page = 1, pg_limit = 20, pg_hasMore = False\<rparr>,
              sd_searchMeta = \<lparr>sm_query = ''hoodie'', sm_location = (- 28.6434, 153.6148),
                               sm_radius = 10, sm_executionTime = 12\<rparr>\<rparr>"
  by (simp add: search_GET_def Let_def sampleSearch_parse twoStores_findMany twoStores_ranked
        sampleValidated_fields search_create_def sampleEnv_def)
     (simp add: twoStoresStore_def)?

text \<open>
  C6 as the specification states it fails on the distance a result carries: of two
  merchants about 0.98 km and 1.02 km away, both reported at 1.0 km, the nearer one comes
  first although its product has the smaller stock (1 against 5).
\<close>

theorem ranking_on_reported_distance_counterexample:
  "map_option (map (\<lambda>p. (pw_name p, am_distance (pw_merchant p), pw_totalStock p)) \<circ> sd_products)
     (payload (fst (search_GET sampleRuntime sampleEnv twoStoresStore sampleSearch))) =
       Some [(''Dune Hoodie'', Some 1, 1), (''Reef Hoodie'', Some 1, 5)]"
  by (simp add: twoStores_search transformProduct_fields transformProduct_totalStock
        nearHoodie_def farHoodie_def)

section \<open>A store with a negative quantity\<close>







section \<open>A distance that is not a number\<close>

lemma antipodalRuntime_fields:
  "roundPositive antipodalRuntime =
     (\<lambda>x. case map_of antipodalRoundings x of Some d \<Rightarrow> Some d | None \<Rightarrow> Some x)"
  "sinOfPositive antipodalRuntime =
     (\<lambda>x. case map_of antipodalSines x of Some s \<Rightarrow> s | None \<Rightarrow> sin x)"
  "cosOf antipodalRuntime =
     (\<lambda>x. case map_of antipodalCosines x of Some c \<Rightarrow> c | None \<Rightarrow> cos x)"
  "StringToNumber antipodalRuntime = decimalLiteral"
  by (simp_all add: antipodalRuntime_def sampleRuntime_def)

lemma antipodal_toRadians:
  "toRadians antipodalRuntime 8 = Some (5030569068109113 / 36028797018963968)"
  "toRadians antipodalRuntime (- 8) = Some (- (5030569068109113 / 36028797018963968))"
  "toRadians antipodalRuntime (- 16) = Some (- (5030569068109113 / 18014398509481984))"
  "toRadians antipodalRuntime 180 = Some (884279719003555 / 281474976710656)"
  by (simp_all add: toRadians_def fdiv_def fmul_def roundToDouble_def Math_PI_def
        antipodalRuntime_fields antipodalRoundings_def)

lemma antipodal_sines:
  "halfAngleSine antipodalRuntime 8 (- 8) = Some (- (5014239404989977 / 36028797018963968))"
  "halfAngleSine antipodalRuntime 0 180 = Some 1"
  by (simp_all add: halfAngleSine_def fsub_def fdiv_def roundToDouble_def antipodal_toRadians
        Math_sin_def antipodalRuntime_fields antipodalRoundings_def antipodalSines_def)

lemma antipodal_cosines:
  "cosOfDegrees antipodalRuntime 8 = Some (4459770905381437 / 4503599627370496)"
  "cosOfDegrees antipodalRuntime (- 8) = Some (4459770905381437 / 4503599627370496)"
  by (simp_all add: cosOfDegrees_def antipodal_toRadians Math_cos_def antipodalRuntime_fields
        antipodalCosines_def)

text \<open>The rounded \<open>a\<close> is the double after 1.\<close>

lemma antipodal_haversineTerm:
  "haversineTerm antipodalRuntime 8 0 (- 8) 180 = Some (4503599627370497 / 4503599627370496)"
  by (simp add: haversineTerm_def antipodal_sines antipodal_cosines fmul_def fadd_def
        roundToDouble_def antipodalRuntime_fields antipodalRoundings_def)

lemma antipodal_distance: "calculateDistance antipodalRuntime 8 0 (- 8) 180 = NaN"
proof (rule calculateDistance_NaN[OF antipodal_haversineTerm])
  show "fsub antipodalRuntime 1 (4503599627370497 / 4503599627370496) =
          Some (- (1 / 4503599627370496))"
    by (simp add: fsub_def roundToDouble_def antipodalRuntime_fields antipodalRoundings_def)
  show "- (1 / 4503599627370496) < (0::real)" by simp
qed

lemma antipodalSearch_parse:
  "searchSchema_parse antipodalRuntime (searchParams_get antipodalSearch) = Inr antipodalValidated"
  by (simp add: searchSchema_parse_def searchParams_get_def antipodalSearch_def
      antipodalValidated_def sampleValidated_def zString_min_max_def zOptional_def zDefault_def
      zCoerceNumber_def zCoerceBoolean_def antipodalRuntime_fields decimalLiteral_def
      sampleNumbers_def)

lemma antipodalValidated_fields:
  "vp_query antipodalValidated = ''hoodie''" "vp_lat antipodalValidated = Some 8"
  "vp_lng antipodalValidated = Some 0" "vp_radius antipodalValidated = 10"
  "vp_limit antipodalValidated = 20" "vp_inStock antipodalValidated = True"
  by (simp_all add: antipodalValidated_def sampleValidated_def)

lemma antipode_findMany:
  assumes "n = 40"
  shows "product_findMany antipodeStore (buildWhereClause antipodalValidated) n =
           Some [antipodeHoodie]"
  unfolding assms
  by (simp add: product_findMany_def antipodeStore_def matchesWhere_def buildWhereClause_def
        antipodalValidated_def sampleValidated_def antipodeHoodie_def antipodeMerchant_def
        containsInsensitive_def orUndefined_string_def toLowerCase_def toLowerChar_def)

lemma antipode_coords:
  "m_latitude (p_merchant antipodeHoodie) = - 8" "m_longitude (p_merchant antipodeHoodie) = 180"
  "totalStockOf antipodeHoodie = 2"
  by (simp_all add: antipodeHoodie_def antipodeMerchant_def totalStockOf_def variationQuantity_def)

lemma antipode_ranked:
  assumes "userLat = 8" "userLng = 0"
  shows "rankedItems antipodalRuntime antipodalValidated userLat userLng 1004 [antipodeHoodie] =
     [\<lparr>it_product = transformProduct 1004 antipodeHoodie None 2, it_distance = NaN\<rparr>]"
  unfolding assms
  by (simp add: rankedItems_def searchCandidate_def antipode_coords antipodal_distance
        antipodalValidated_fields)

text \<open>
  A search of radius 10 km returns a product whose merchant is at the antipode of the
  query coordinate, about 20015 km away: the distance is NaN, the test
  \<^verbatim>\<open>distance > radius\<close> is false, and the product carries no distance.
\<close>

lemma antipodal_search:
  "fst (search_GET antipodalRuntime sampleEnv antipodeStore antipodalSearch) =
     Success \<lparr>sd_products = [transformProduct 1004 antipodeHoodie None 2],
              sd_pagination = \<lparr>pg_total = 1, pg_page = 1, pg_limit = 20, pg_hasMore = False\<rparr>,
              sd_searchMeta = \<lparr>sm_query = ''hoodie'', sm_location = (8, 0),
                               sm_radius = 10, sm_executionTime = 12\<rparr>\<rparr>"
  by (simp add: search_GET_def Let_def antipodalSearch_parse antipode_findMany antipode_ranked
        antipodalValidated_fields search_create_def sampleEnv_def)
     (simp add: antipodeStore_def)?

section \<open>The distance function\<close>

text \<open>
  C9. The distance function is symmetric: for all coordinate pairs A and B,
  distance(A, B) = distance(B, A), as numbers computed in double arithmetic (when one
  is NaN, so is the other).
\<close>

theorem calculateDistance_symmetric:
  "calculateDistance rt lat1 lng1 lat2 lng2 = calculateDistance rt lat2 lng2 lat1 lng1"
  unfolding calculateDistance_def haversineTerm_swap[of rt lat2 lng2 lat1 lng1] ..

end
